theory Spec2Isabelle
  imports Complex_Main
begin

section \<open>Conventions of the embedding\<close>

text \<open>
  The Python sources compute with IEEE doubles (pandas/numpy columns). The embedding
  idealises a finite double as a \<open>real\<close>; rounding is not modelled. A cell that can hold
  NaN is a \<open>real option\<close> with \<open>None\<close> for NaN, and every comparison with NaN is false, as
  in Python. Where a division of the simulator can meet a zero divisor the source goes on
  with a NaN or an infinity; the model stops there with \<open>Inl NonFinite\<close> instead of
  inventing a real number for it.

  The indicator engine is written with pandas; \<open>ewm\<close>, \<open>diff\<close>, \<open>where\<close> and
  \<open>fillna\<close> are modelled by what the library computes. A column that never holds NaN
  for finite bars is a \<open>real list\<close>, one that can is a \<open>real option list\<close>.

  The backtester imports its strategy class \<open>NikesMassiveRocketBinance\<close> from a module
  that is not part of the sources; the per-mode parameter table \<open>strategy.params\<close> is
  therefore a parameter of the model. \<open>phemex_params\<close> is the table of
  \<open>NikesMassiveRocketPhemex.__init__\<close> (misterlabsalgototweak.py), which the source
  describes as the same parameters as the Binance version.
\<close>

datatype signal = BUY | SELL | NEUTRAL

datatype mode = aggressive | conservative

datatype fault = NonFinite

record mode_params =
  trend_strength_threshold :: real
  max_trend_strength_threshold :: real
  min_volatility_percentile :: real
  profit_target_multiplier :: real
  risk_per_trade :: real

definition phemex_params :: "mode \<Rightarrow> mode_params" where
  "phemex_params m = (case m of
     aggressive \<Rightarrow> \<lparr>trend_strength_threshold = 0.2, max_trend_strength_threshold = 0.9,
        min_volatility_percentile = 15, profit_target_multiplier = 3.5, risk_per_trade = 0.04\<rparr>
   | conservative \<Rightarrow> \<lparr>trend_strength_threshold = 0.2, max_trend_strength_threshold = 1,
        min_volatility_percentile = 15, profit_target_multiplier = 2.5, risk_per_trade = 0.02\<rparr>)"

section \<open>Mode selection and signal generation\<close>

text \<open>\<open>confidence_mode_selector\<close> (misterlabsalgototweak.py, static method).\<close>

definition confidence_mode_selector :: "real \<Rightarrow> real \<Rightarrow> real" where
  "confidence_mode_selector confidence vol_percentile =
     (let vol_factor = 1.0 - (vol_percentile / 100.0);
          score = 0.5 * confidence + 0.5 * vol_factor
      in score)"

text \<open>
  \<open>mode = 'aggressive' if score >= 0.5 else 'conservative'\<close>, the score being NaN when
  the volatility percentile is NaN.
\<close>

definition mode_of_score :: "real option \<Rightarrow> mode" where
  "mode_of_score score =
     (case score of None \<Rightarrow> conservative
      | Some s \<Rightarrow> if s \<ge> 0.5 then aggressive else conservative)"

text \<open>
  A row of the prepared frame, reduced to the columns the backtester and the live signal
  read. \<open>close\<close> and \<open>atr14\<close> are finite for finite bars; the other three columns can
  be NaN.
\<close>

record row =
  row_datetime :: int
  row_close :: real
  row_atr14 :: real
  combined_trend :: "real option"
  timeframe_alignment :: "real option"
  vol_percentile :: "real option"

record signal_data =
  sd_signal :: signal
  sd_confidence :: real
  sd_mode :: mode
  sd_entry_price :: real
  sd_stop_loss :: real
  sd_take_profit :: real
  sd_atr :: real
  sd_risk_per_trade :: real

text \<open>
  \<open>params['min_volatility_percentile'] <= vol_percentile <= 90\<close>: false on NaN.
\<close>

definition vol_in_range :: "real \<Rightarrow> real option \<Rightarrow> bool" where
  "vol_in_range lo v = (case v of None \<Rightarrow> False | Some x \<Rightarrow> lo \<le> x \<and> x \<le> 90)"

text \<open>\<open>InstitutionalBacktester.generate_signal\<close>.\<close>

definition generate_signal :: "(mode \<Rightarrow> mode_params) \<Rightarrow> row \<Rightarrow> signal_data option" where
  "generate_signal params r =
     (case (combined_trend r, timeframe_alignment r) of
        (Some ct, Some alignment) \<Rightarrow>
          (let abs_trend = \<bar>ct\<bar>;
               trend_direction = sgn ct;
               confidence = abs_trend;
               score = map_option (confidence_mode_selector confidence) (vol_percentile r);
               md = mode_of_score score;
               p = params md;
               sg = (if abs_trend \<ge> trend_strength_threshold p \<and>
                        abs_trend \<le> max_trend_strength_threshold p \<and>
                        vol_in_range (min_volatility_percentile p) (vol_percentile r) \<and>
                        alignment > 0.3
                     then (if trend_direction > 0 then BUY else SELL)
                     else NEUTRAL);
               entry_price = row_close r;
               atr = row_atr14 r;
               stop_loss = (case sg of BUY \<Rightarrow> entry_price - atr * 1.5
                            | SELL \<Rightarrow> entry_price + atr * 1.5
                            | NEUTRAL \<Rightarrow> entry_price);
               take_profit = (case sg of BUY \<Rightarrow> entry_price + atr * profit_target_multiplier p
                              | SELL \<Rightarrow> entry_price - atr * profit_target_multiplier p
                              | NEUTRAL \<Rightarrow> entry_price)
           in Some \<lparr>sd_signal = sg, sd_confidence = confidence, sd_mode = md,
                    sd_entry_price = entry_price, sd_stop_loss = stop_loss,
                    sd_take_profit = take_profit, sd_atr = atr,
                    sd_risk_per_trade = risk_per_trade p\<rparr>)
      | _ \<Rightarrow> None)"

text \<open>
  The signal part of \<open>NikesMassiveRocketPhemex.generate_signals_live\<close> for the latest
  row of the combined frame: the trend-range check, then the volatility filter
  \<open>if vol_percentile < min or vol_percentile > 90\<close>, which a NaN percentile does not
  trigger. The result is the signal, the reported confidence and the mode
  (\<open>None\<close> for the empty \<open>mode_used\<close> of the early return on a NaN trend). The
  function looks at a row only after it has read a non-zero account equity and fetched
  the bars; without funds it returns a NEUTRAL record before any bar is evaluated, and
  the position sizing that follows a BUY or SELL does not change the signal. Neither is
  part of this definition.
\<close>

definition vol_filter_triggered :: "real \<Rightarrow> real option \<Rightarrow> bool" where
  "vol_filter_triggered lo v = (case v of None \<Rightarrow> False | Some x \<Rightarrow> x < lo \<or> x > 90)"

definition live_signal :: "row \<Rightarrow> signal \<times> real \<times> mode option" where
  "live_signal latest_row =
     (case (combined_trend latest_row, timeframe_alignment latest_row) of
        (Some ct, Some alignment) \<Rightarrow>
          (let abs_trend = \<bar>ct\<bar>;
               trend_direction = sgn ct;
               score = map_option (confidence_mode_selector abs_trend) (vol_percentile latest_row);
               md = mode_of_score score;
               current_params = phemex_params md;
               (sg, confidence) =
                  (if abs_trend \<ge> trend_strength_threshold current_params \<and>
                      abs_trend \<le> max_trend_strength_threshold current_params
                   then (if trend_direction > 0 then BUY else SELL, min abs_trend 0.99)
                   else (NEUTRAL, 0.0));
               (sg, confidence) =
                  (if vol_filter_triggered (min_volatility_percentile current_params)
                        (vol_percentile latest_row)
                   then (NEUTRAL, 0.0) else (sg, confidence))
           in (sg, confidence, Some md))
      | _ \<Rightarrow> (NEUTRAL, 0.0, None))"

section \<open>Trade simulation\<close>

record position =
  entry_time :: int
  side :: signal
  entry_price :: real
  position_size :: real
  leverage :: real
  stop_loss :: real
  take_profit :: real
  entry_fee :: real
  pos_mode :: mode
  confidence :: real

record trade = position +
  exit_time :: int
  exit_price :: real
  exit_reason :: string
  pnl_dollar :: real
  pnl_percent :: real
  total_fees :: "real option"
  capital_after :: real

record backtester =
  current_capital :: real
  max_leverage :: real
  trading_fee :: real
  trades :: "trade list"
  equity_curve :: "(int \<times> real \<times> real) list"
  current_position :: "position option"

text \<open>\<open>InstitutionalBacktester.__init__\<close>, with \<open>current_position = None\<close> of \<open>run_backtest\<close>.\<close>

definition init_backtester :: "real \<Rightarrow> backtester" where
  "init_backtester initial_capital =
     \<lparr>current_capital = initial_capital, max_leverage = 10, trading_fee = 0.0004,
      trades = [], equity_curve = [], current_position = None\<rparr>"

text \<open>
  \<open>InstitutionalBacktester.simulate_trade\<close>. \<open>Inr None\<close> is the source's
  \<open>return None\<close>; \<open>Inl NonFinite\<close> is \<open>position_value / self.current_capital\<close> at a
  zero capital, where the source returns a position whose leverage is NaN.
\<close>

definition simulate_trade ::
  "backtester \<Rightarrow> signal_data option \<Rightarrow> real \<Rightarrow> int \<Rightarrow> fault + position option" where
  "simulate_trade self sdo current_price current_time =
     (case sdo of None \<Rightarrow> Inr None
      | Some sd \<Rightarrow>
        if sd_signal sd \<noteq> BUY \<and> sd_signal sd \<noteq> SELL then Inr None
        else
          let risk_amount = current_capital self * sd_risk_per_trade sd;
              entry = sd_entry_price sd;
              stop = sd_stop_loss sd;
              risk_per_unit = \<bar>entry - stop\<bar>
          in if risk_per_unit \<le> 0 then Inr None
             else
               let psize = risk_amount / risk_per_unit;
                   position_value = psize * entry
               in if current_capital self = 0 then Inl NonFinite
                  else
                    let lev = min (position_value / current_capital self) (max_leverage self);
                        lev = (if lev < 1 then 1 else lev);
                        fee = position_value * trading_fee self
                    in Inr (Some \<lparr>entry_time = current_time, side = sd_signal sd,
                                    entry_price = entry, position_size = psize, leverage = lev,
                                    stop_loss = stop, take_profit = sd_take_profit sd,
                                    entry_fee = fee, pos_mode = sd_mode sd,
                                    confidence = sd_confidence sd\<rparr>))"

text \<open>
  The exit test of \<open>run_backtest\<close> for an open position: the reason and the fill price,
  or \<open>None\<close> when \<open>exit_triggered\<close> stays false.
\<close>

definition check_exit :: "position \<Rightarrow> real \<Rightarrow> (string \<times> real) option" where
  "check_exit p current_price =
     (if side p = BUY then
        (if current_price \<le> stop_loss p then Some (''Stop Loss'', stop_loss p)
         else if current_price \<ge> take_profit p then Some (''Take Profit'', take_profit p)
         else None)
      else
        (if current_price \<ge> stop_loss p then Some (''Stop Loss'', stop_loss p)
         else if current_price \<le> take_profit p then Some (''Take Profit'', take_profit p)
         else None))"

text \<open>The signed price change relative to entry, used by both closing paths.\<close>

definition price_change_of :: "position \<Rightarrow> real \<Rightarrow> real" where
  "price_change_of p px =
     (if side p = BUY then (px - entry_price p) / entry_price p
      else (entry_price p - px) / entry_price p)"

text \<open>The body of \<open>if exit_triggered:\<close> in \<open>run_backtest\<close>.\<close>

definition close_position ::
  "backtester \<Rightarrow> position \<Rightarrow> int \<Rightarrow> string \<Rightarrow> real \<Rightarrow> fault + backtester" where
  "close_position self p current_time reason px =
     (if entry_price p = 0 then Inl NonFinite
      else
        let price_change = price_change_of p px;
            leveraged_return = price_change * leverage p;
            pnl = current_capital self * leveraged_return;
            exit_fee = position_size p * px * trading_fee self;
            fees = entry_fee p + exit_fee;
            pnl = pnl - fees;
            capital = current_capital self + pnl;
            t = position.extend p
                  (trade.fields current_time px reason pnl (leveraged_return * 100)
                     (Some fees) capital)
        in Inr (self\<lparr>current_capital := capital, trades := trades self @ [t],
                       current_position := None\<rparr>))"

text \<open>The block \<open># Handle existing position\<close>.\<close>

definition handle_existing :: "backtester \<Rightarrow> row \<Rightarrow> fault + backtester" where
  "handle_existing self r =
     (case current_position self of
        None \<Rightarrow> Inr self
      | Some p \<Rightarrow>
          (case check_exit p (row_close r) of
             None \<Rightarrow> Inr self
           | Some (reason, px) \<Rightarrow> close_position self p (row_datetime r) reason px))"

text \<open>The block \<open># Check for new entries\<close>.\<close>

definition check_entries ::
  "(mode \<Rightarrow> mode_params) \<Rightarrow> backtester \<Rightarrow> row \<Rightarrow> fault + backtester" where
  "check_entries params self r =
     (case current_position self of
        Some p \<Rightarrow> Inr self
      | None \<Rightarrow>
          (case generate_signal params r of
             None \<Rightarrow> Inr self
           | Some sd \<Rightarrow>
               if sd_signal sd = BUY \<or> sd_signal sd = SELL then
                 (case simulate_trade self (Some sd) (row_close r) (row_datetime r) of
                    Inl e \<Rightarrow> Inl e
                  | Inr None \<Rightarrow> Inr self
                  | Inr (Some pos) \<Rightarrow> Inr (self\<lparr>current_position := Some pos\<rparr>))
               else Inr self))"

text \<open>One iteration of the simulation loop for a row with index at least 250.\<close>

definition process_row ::
  "(mode \<Rightarrow> mode_params) \<Rightarrow> backtester \<Rightarrow> row \<Rightarrow> fault + backtester" where
  "process_row params self r =
     (let self1 = self\<lparr>equity_curve :=
                   equity_curve self @ [(row_datetime r, current_capital self, row_close r)]\<rparr>
      in case handle_existing self1 r of
           Inl e \<Rightarrow> Inl e
         | Inr self2 \<Rightarrow> check_entries params self2 r)"

fun simulate :: "(mode \<Rightarrow> mode_params) \<Rightarrow> backtester \<Rightarrow> row list \<Rightarrow> fault + backtester" where
  "simulate params self [] = Inr self"
| "simulate params self (r # rs) =
     (case process_row params self r of
        Inl e \<Rightarrow> Inl e
      | Inr self' \<Rightarrow> simulate params self' rs)"

text \<open>
  The block \<open># Close final position\<close>: the position still open after the loop is closed
  at the close of the last row of the prepared frame.
\<close>

definition close_final :: "backtester \<Rightarrow> position \<Rightarrow> row \<Rightarrow> fault + backtester" where
  "close_final self p last_row =
     (if entry_price p = 0 then Inl NonFinite
      else
        let final_price = row_close last_row;
            pnl_pct = price_change_of p final_price;
            leveraged_return = pnl_pct * leverage p;
            pnl = current_capital self * leveraged_return;
            capital = current_capital self + pnl;
            t = position.extend p
                  (trade.fields (row_datetime last_row) final_price ''End of Data'' pnl
                     (leveraged_return * 100) None capital)
        in Inr (self\<lparr>current_capital := capital, trades := trades self @ [t]\<rparr>))"

text \<open>
  \<open>run_backtest\<close> on the prepared frame: rows with index below 250 are skipped
  (\<open>if i < 250: continue\<close>), the others are processed in order, then the final position
  is closed. A position can only be open when a row was processed, so the frame is then
  not empty and \<open>last\<close> is its row \<open>iloc[-1]\<close>.
\<close>

definition run_backtest ::
  "(mode \<Rightarrow> mode_params) \<Rightarrow> real \<Rightarrow> row list \<Rightarrow> fault + backtester" where
  "run_backtest params initial_capital prepared =
     (case simulate params (init_backtester initial_capital) (drop 250 prepared) of
        Inl e \<Rightarrow> Inl e
      | Inr self \<Rightarrow>
          (case current_position self of
             None \<Rightarrow> Inr self
           | Some p \<Rightarrow> close_final self p (last prepared)))"

section \<open>Performance metrics\<close>

text \<open>
  \<open>profit_factor\<close> is a float, \<open>float('inf')\<close> or the integer 0 in the source.
\<close>

datatype xreal = Fin real | PosInf

definition gross_profit_of :: "trade list \<Rightarrow> real" where
  "gross_profit_of trades_df =
     sum_list (map pnl_dollar (filter (\<lambda>t. pnl_dollar t > 0) trades_df))"

definition gross_loss_of :: "trade list \<Rightarrow> real" where
  "gross_loss_of trades_df =
     \<bar>sum_list (map pnl_dollar (filter (\<lambda>t. pnl_dollar t < 0) trades_df))\<bar>"

text \<open>
  The trade-level branch of \<open>calculate_institutional_metrics\<close> that sets
  \<open>profit_factor\<close>.
\<close>

definition profit_factor :: "trade list \<Rightarrow> xreal" where
  "profit_factor trades_df =
     (if length trades_df > 0 then
        (let gross_profit = gross_profit_of trades_df;
             gross_loss = gross_loss_of trades_df
         in if gross_loss > 0 then Fin (gross_profit / gross_loss) else PosInf)
      else Fin 0)"

section \<open>Indicator engine\<close>

datatype py_error = IndexError

record bar =
  datetime :: int
  opn :: real
  high :: real
  low :: real
  close :: real
  volume :: real

text \<open>
  \<open>Series.ewm(alpha=alpha, adjust=False).mean()\<close> of pandas on a column without NaN:
  the first value seeds the average, every later value updates it with weight
  \<open>alpha\<close> (the old weight is reset to 1 after each observation, so the normalising sum
  is \<open>(1 - alpha) + alpha\<close>); an observation equal to the average leaves it unchanged.
\<close>

fun ewm_run_real :: "real \<Rightarrow> real \<Rightarrow> real list \<Rightarrow> real list" where
  "ewm_run_real alpha weighted [] = []"
| "ewm_run_real alpha weighted (cur # vals) =
     (let weighted' = (if weighted \<noteq> cur
                       then ((1 - alpha) * weighted + alpha * cur) / ((1 - alpha) + alpha)
                       else weighted)
      in weighted' # ewm_run_real alpha weighted' vals)"

definition ewm_mean_real :: "real \<Rightarrow> real list \<Rightarrow> real list" where
  "ewm_mean_real alpha vals =
     (case vals of [] \<Rightarrow> [] | v # rest \<Rightarrow> v # ewm_run_real alpha v rest)"

text \<open>
  The same on a column that can hold NaN (\<open>ignore_na=False\<close>, \<open>min_periods=0\<close>): the
  output is NaN until the first observation, which seeds the average; a NaN after that
  repeats the average and multiplies the old weight by \<open>1 - alpha\<close>.
\<close>

fun ewm_run :: "real \<Rightarrow> real option \<Rightarrow> real \<Rightarrow> real option list \<Rightarrow> real option list" where
  "ewm_run alpha weighted old_wt [] = []"
| "ewm_run alpha weighted old_wt (cur # vals) =
     (case weighted of
        None \<Rightarrow> cur # ewm_run alpha cur 1 vals
      | Some w \<Rightarrow>
          (case cur of
             None \<Rightarrow> Some w # ewm_run alpha (Some w) (old_wt * (1 - alpha)) vals
           | Some x \<Rightarrow>
               (let ow = old_wt * (1 - alpha);
                    w' = (if w \<noteq> x then (ow * w + alpha * x) / (ow + alpha) else w)
                in Some w' # ewm_run alpha (Some w') 1 vals)))"

definition ewm_mean :: "real \<Rightarrow> real option list \<Rightarrow> real option list" where
  "ewm_mean alpha vals =
     (case vals of [] \<Rightarrow> [] | v # rest \<Rightarrow> v # ewm_run alpha v 1 rest)"

text \<open>\<open>ewm(span=span, adjust=False)\<close>: \<open>alpha = 2 / (span + 1)\<close>.\<close>

definition ema :: "nat \<Rightarrow> real list \<Rightarrow> real list" where
  "ema span_n vals = ewm_mean_real (2 / (real span_n + 1)) vals"

text \<open>
  \<open>wilder_smooth(series, period)\<close> of \<open>calculate_indicators\<close>, on a column without and
  with NaN. Every call passes the period 14.
\<close>

definition wilder_smooth_real :: "real list \<Rightarrow> nat \<Rightarrow> real list" where
  "wilder_smooth_real series period = (let alpha = 1.0 / real period in ewm_mean_real alpha series)"

definition wilder_smooth :: "real option list \<Rightarrow> nat \<Rightarrow> real option list" where
  "wilder_smooth series period = (let alpha = 1.0 / real period in ewm_mean alpha series)"

text \<open>\<open>Series.diff()\<close>: NaN in the first cell.\<close>

definition diff :: "real list \<Rightarrow> real option list" where
  "diff col = (case col of [] \<Rightarrow> [] | _ # rest \<Rightarrow> None # map2 (\<lambda>x prev. Some (x - prev)) rest col)"

text \<open>\<open>a > b\<close> on cells: false when either is NaN.\<close>

definition gt :: "real option \<Rightarrow> real option \<Rightarrow> bool" where
  "gt a b = (case (a, b) of (Some x, Some y) \<Rightarrow> x > y | _ \<Rightarrow> False)"

text \<open>
  \<open>gain = delta.where(delta > 0, 0)\<close> and \<open>loss = -delta.where(delta < 0, 0)\<close>: a NaN
  delta fails both conditions and is replaced by 0.
\<close>

definition gain_of :: "real option \<Rightarrow> real" where
  "gain_of delta = (case delta of None \<Rightarrow> 0 | Some d \<Rightarrow> if d > 0 then d else 0)"

definition loss_of :: "real option \<Rightarrow> real" where
  "loss_of delta = (case delta of None \<Rightarrow> - 0 | Some d \<Rightarrow> - (if d < 0 then d else 0))"

text \<open>
  The RSI cell: \<open>np.where(avg_loss == 0, 100, np.where(avg_gain == 0, 0, 100 - 100 / (1 + rs)))\<close>
  with \<open>rs = avg_gain / avg_loss\<close>. Both averages are finite and not negative, so the
  last branch divides by a number that is at least 1 and \<open>fillna(50)\<close> changes nothing.
\<close>

definition rsi_of :: "real \<Rightarrow> real \<Rightarrow> real" where
  "rsi_of avg_gain avg_loss =
     (if avg_loss = 0 then 100
      else if avg_gain = 0 then 0
      else 100 - (100 / (1 + avg_gain / avg_loss)))"

text \<open>
  The true range column: \<open>tr2\<close> and \<open>tr3\<close> use the previous close and are set to 0 in
  the first row.
\<close>

definition true_range_col :: "real list \<Rightarrow> real list \<Rightarrow> real list \<Rightarrow> real list" where
  "true_range_col highs lows closes =
     map (\<lambda>i. let tr1 = highs ! i - lows ! i;
                   tr2 = (if i = 0 then 0 else \<bar>highs ! i - closes ! (i - 1)\<bar>);
                   tr3 = (if i = 0 then 0 else \<bar>lows ! i - closes ! (i - 1)\<bar>)
               in max tr1 (max tr2 tr3))
         [0..<length closes]"

text \<open>
  The directional movements:
  \<open>np.where(pd.isna(up), np.nan, np.where((up > down) & (up > 0), up, 0))\<close>.
\<close>

definition dm_of :: "real option \<Rightarrow> real option \<Rightarrow> real option" where
  "dm_of up down =
     (case up of None \<Rightarrow> None
      | Some u \<Rightarrow> if gt up down \<and> u > 0 then Some u else Some 0)"

text \<open>
  A directional indicator \<open>100 * (dm_rma / truerange_rma)\<close> after \<open>fillna(0)\<close>: a NaN
  (a NaN numerator, or 0/0) has become 0; a non-zero numerator over a zero range is an
  infinity, which \<open>fillna\<close> keeps.
\<close>

datatype di_value = DI real | DI_inf

definition di_of :: "real option \<Rightarrow> real \<Rightarrow> di_value" where
  "di_of dm_rma truerange_rma =
     (case dm_rma of None \<Rightarrow> DI 0
      | Some d \<Rightarrow>
          if truerange_rma = 0 then (if d = 0 then DI 0 else DI_inf)
          else DI (100 * (d / truerange_rma)))"

text \<open>
  \<open>dx = 100 * |plus_di - minus_di| / np.where(di_sum == 0, 1, di_sum)\<close>. With an infinite
  indicator the quotient is \<open>inf / inf\<close> or has a NaN operand, so \<open>dx\<close> is NaN.
\<close>

definition dx_of :: "di_value \<Rightarrow> di_value \<Rightarrow> real option" where
  "dx_of plus_di minus_di =
     (case (plus_di, minus_di) of
        (DI p, DI m) \<Rightarrow>
          (let di_sum = p + m
           in Some (100 * \<bar>p - m\<bar> / (if di_sum = 0 then 1 else di_sum)))
      | _ \<Rightarrow> None)"

definition fillna :: "real \<Rightarrow> real option \<Rightarrow> real" where
  "fillna d v = (case v of None \<Rightarrow> d | Some x \<Rightarrow> x)"

text \<open>\<open>calculate_tradingview_adx(high, low, close)\<close> with \<open>dilen = adxlen = 14\<close>.\<close>

definition calculate_tradingview_adx :: "real list \<Rightarrow> real list \<Rightarrow> real list \<Rightarrow> real list" where
  "calculate_tradingview_adx highs lows closes =
     (let up = diff highs;
          down = map (map_option uminus) (diff lows);
          plusDM = map2 dm_of up down;
          minusDM = map2 dm_of down up;
          true_range = true_range_col highs lows closes;
          truerange_rma = wilder_smooth_real true_range 14;
          plusDM_rma = wilder_smooth plusDM 14;
          minusDM_rma = wilder_smooth minusDM 14;
          plus_di = map2 di_of plusDM_rma truerange_rma;
          minus_di = map2 di_of minusDM_rma truerange_rma;
          dx = map2 dx_of plus_di minus_di;
          adx = wilder_smooth dx 14
      in map (fillna 0) adx)"

text \<open>\<open>(cond).astype(int) * 2 - 1\<close>.\<close>

definition pm1 :: "bool \<Rightarrow> real" where
  "pm1 c = (if c then 1 else 0) * 2 - 1"

definition b2r :: "bool \<Rightarrow> real" where
  "b2r c = (if c then 1 else 0)"

text \<open>
  The trend strength of one row from its seven conditions: the two EMA alignments
  (\<open>astype(int)\<close>), the four sign terms (\<open>astype(int) * 2 - 1\<close>) and
  \<open>strong_trend = (adx > 25).astype(int)\<close>.
\<close>

definition trend_strength_of :: "bool \<Rightarrow> bool \<Rightarrow> bool \<Rightarrow> bool \<Rightarrow> bool \<Rightarrow> bool \<Rightarrow> bool \<Rightarrow> real" where
  "trend_strength_of aligned_bull aligned_bear above_ema50 above_ema200 macd_above rsi_above
       adx_above =
     (let ema_aligned_bull = b2r aligned_bull;
          ema_aligned_bear = b2r aligned_bear;
          price_above_ema50 = pm1 above_ema50;
          price_above_ema200 = pm1 above_ema200;
          macd_above_signal = pm1 macd_above;
          rsi_trend = pm1 rsi_above;
          ts = ema_aligned_bull * 0.3 - ema_aligned_bear * 0.3 +
               price_above_ema50 * 0.15 + price_above_ema200 * 0.15 +
               macd_above_signal * 0.2 + rsi_trend * 0.2;
          strong_trend = b2r adx_above
      in ts * (0.5 + 0.5 * strong_trend))"

text \<open>
  A row of the frame returned by \<open>calculate_indicators\<close>, with the columns that the
  later stages read.
\<close>

record frame =
  fr_datetime :: int
  fr_close :: real
  ema200 :: real
  rsi :: real
  adx :: real
  atr14 :: real
  fr_vol_percentile :: "real option"
  trend_strength :: real

text \<open>
  \<open>NikesMassiveRocketPhemex.calculate_indicators\<close>. The frame has all five price
  columns by its type. On an empty frame \<open>tr2.iloc[0] = 0\<close> raises \<open>IndexError\<close>.
  The column \<open>vol_percentile\<close> (a rolling 100-bar percentile rank of \<open>atr_pct\<close>) and
  the Bollinger bands are not modelled: \<open>vol_col\<close> gives the value of
  \<open>vol_percentile\<close> in each row and is arbitrary.
\<close>

definition calculate_indicators :: "(nat \<Rightarrow> real option) \<Rightarrow> bar list \<Rightarrow> py_error + frame list" where
  "calculate_indicators vol_col df =
     (if df = [] then Inl IndexError
      else
        let closes = map close df; highs = map high df; lows = map low df;
            ema9 = ema 9 closes; ema21 = ema 21 closes; ema50 = ema 50 closes;
            ema100 = ema 100 closes; ema200c = ema 200 closes;
            ema12 = ema 12 closes; ema26 = ema 26 closes;
            macd = map2 (-) ema12 ema26;
            macd_signal = ema 9 macd;
            delta = diff closes;
            avg_gain = wilder_smooth_real (map gain_of delta) 14;
            avg_loss = wilder_smooth_real (map loss_of delta) 14;
            rsic = map2 rsi_of avg_gain avg_loss;
            adxc = calculate_tradingview_adx highs lows closes;
            atr = wilder_smooth_real (true_range_col highs lows closes) 14
        in Inr (map (\<lambda>i.
             \<lparr>fr_datetime = datetime (df ! i), fr_close = closes ! i,
              ema200 = ema200c ! i, rsi = rsic ! i, adx = adxc ! i, atr14 = atr ! i,
              fr_vol_percentile = vol_col i,
              trend_strength =
                trend_strength_of
                  (ema9 ! i > ema21 ! i \<and> ema21 ! i > ema50 ! i \<and>
                   ema50 ! i > ema100 ! i \<and> ema100 ! i > ema200c ! i)
                  (ema9 ! i < ema21 ! i \<and> ema21 ! i < ema50 ! i \<and>
                   ema50 ! i < ema100 ! i \<and> ema100 ! i < ema200c ! i)
                  (closes ! i > ema50 ! i) (closes ! i > ema200c ! i)
                  (macd ! i > macd_signal ! i) (rsic ! i > 50) (adxc ! i > 25)\<rparr>)
             [0..<length df]))"

text \<open>
  The as-of lookup of \<open>combine_timeframes\<close>: the trend strength of the last row of
  the coarser frame whose datetime is at most \<open>current_time\<close>, if there is one.
\<close>

definition asof_trend :: "frame list \<Rightarrow> int \<Rightarrow> real option" where
  "asof_trend df current_time =
     (case filter (\<lambda>f. fr_datetime f \<le> current_time) df of
        [] \<Rightarrow> None
      | f # fs \<Rightarrow> Some (trend_strength (last (f # fs))))"

text \<open>
  \<open>NikesMassiveRocketPhemex.combine_timeframes\<close> with the weights 0.5, 0.3 and 0.2 of
  \<open>timeframe_weights\<close>. The trend strength of the lower frame is never NaN, so
  the combined trend and the alignment are NaN exactly when a coarser lookup finds no row.
\<close>

definition combine_timeframes :: "frame list \<Rightarrow> frame list \<Rightarrow> frame list \<Rightarrow> row list" where
  "combine_timeframes daily_df medium_df lower_df =
     map (\<lambda>f.
       let current_time = fr_datetime f;
           daily_trend = asof_trend daily_df current_time;
           medium_trend = asof_trend medium_df current_time;
           lower_trend = trend_strength f;
           both = (case (daily_trend, medium_trend) of
                     (Some d, Some m) \<Rightarrow>
                       Some (d * 0.5 + m * 0.3 + lower_trend * 0.2,
                             1.0 - (\<bar>d - m\<bar> * 0.4 + \<bar>d - lower_trend\<bar> * 0.4 +
                                    \<bar>m - lower_trend\<bar> * 0.2) / 2.0)
                   | _ \<Rightarrow> None)
       in \<lparr>row_datetime = current_time, row_close = fr_close f, row_atr14 = atr14 f,
            combined_trend = map_option fst both, timeframe_alignment = map_option snd both,
            vol_percentile = fr_vol_percentile f\<rparr>)
       lower_df"

text \<open>
  The smoothing of the other strategy file (MRLABS.py): \<open>rolling(window=14).mean()\<close>,
  NaN until the window is full.
\<close>

definition rolling_mean :: "nat \<Rightarrow> real list \<Rightarrow> real option list" where
  "rolling_mean window vals =
     map (\<lambda>i. if i + 1 < window then None
               else Some (sum_list (take window (drop (i + 1 - window) vals)) / real window))
         [0..<length vals]"

section \<open>Vocabulary of the specification\<close>

text \<open>\<open>clamp(x, lo, hi)\<close> as the specification writes it.\<close>

definition clamp :: "real \<Rightarrow> real \<Rightarrow> real \<Rightarrow> real" where
  "clamp x lo hi = max lo (min x hi)"

text \<open>Example rows used to instantiate the theorems.\<close>

definition example_row :: row where
  "example_row = \<lparr>row_datetime = 0, row_close = 1, row_atr14 = 0.02,
     combined_trend = Some 0.3, timeframe_alignment = Some 1, vol_percentile = Some 80\<rparr>"


definition selected_mode :: "real \<Rightarrow> real \<Rightarrow> mode" where
  "selected_mode ct v =
     (if 0.5 * \<bar>ct\<bar> + 0.5 * (1 - v / 100) \<ge> 0.5 then aggressive else conservative)"

definition trend_vol_gates :: "mode_params \<Rightarrow> real \<Rightarrow> real \<Rightarrow> bool" where
  "trend_vol_gates p ct v =
     (trend_strength_threshold p \<le> \<bar>ct\<bar> \<and> \<bar>ct\<bar> \<le> max_trend_strength_threshold p \<and>
      min_volatility_percentile p \<le> v \<and> v \<le> 90)"

definition final_row :: row where
  "final_row = \<lparr>row_datetime = 1, row_close = 1.01, row_atr14 = 0.02,
     combined_trend = None, timeframe_alignment = None, vol_percentile = None\<rparr>"


text \<open>
  Trades do not overlap in time: every trade exits no later than any later trade of the
  log enters, and no trade exits before it enters.
\<close>
definition trades_disjoint :: "trade list \<Rightarrow> bool" where
  "trades_disjoint ts =
     (sorted_wrt (\<lambda>a b. exit_time a \<le> entry_time b) ts \<and>
      (\<forall>t\<in>set ts. entry_time t \<le> exit_time t))"

text \<open>The open position, if any, was entered after every logged trade was closed.\<close>

definition no_overlap :: "backtester \<Rightarrow> bool" where
  "no_overlap self =
     (trades_disjoint (trades self) \<and>
      (\<forall>p. current_position self = Some p \<longrightarrow>
           (\<forall>t\<in>set (trades self). exit_time t \<le> entry_time p)))"

text \<open>The invariant of the simulation loop at time \<open>now\<close>.\<close>

definition one_slot :: "int \<Rightarrow> backtester \<Rightarrow> bool" where
  "one_slot now self =
     (no_overlap self \<and> (\<forall>t\<in>set (trades self). exit_time t \<le> now) \<and>
      (\<forall>p. current_position self = Some p \<longrightarrow> entry_time p \<le> now))"

text \<open>A run with two trades: a take-profit with a re-entry on the same bar, then a stop-loss.\<close>

definition reentry_row :: row where
  "reentry_row = \<lparr>row_datetime = 1, row_close = 1.06, row_atr14 = 0.02,
     combined_trend = Some 0.3, timeframe_alignment = Some 1, vol_percentile = Some 80\<rparr>"

definition two_trade_rows :: "row list" where
  "two_trade_rows = replicate 250 example_row @ [example_row, reentry_row, final_row]"

definition example_position :: position where
  "example_position = \<lparr>entry_time = 0, side = BUY, entry_price = 1,
     position_size = 200 / 0.03, leverage = 1, stop_loss = 0.97, take_profit = 1.05,
     entry_fee = (200 / 0.03) * 0.0004, pos_mode = conservative, confidence = 0.3\<rparr>"

text \<open>A closed trade of \<open>example_position\<close> with the given P&L.\<close>

definition example_trade :: "real \<Rightarrow> trade" where
  "example_trade pnl = position.extend example_position
     (trade.fields 1 1.05 ''Take Profit'' pnl 5 (Some 5.5) (10000 + pnl))"

text \<open>The recurrence of the specification, seeded by the first observation.\<close>

fun wilder_rec :: "real \<Rightarrow> real \<Rightarrow> real list \<Rightarrow> real list" where
  "wilder_rec period prev [] = []"
| "wilder_rec period prev (x # xs) =
     (let avg = prev + (1 / period) * (x - prev) in avg # wilder_rec period avg xs)"

definition wilder_spec :: "real \<Rightarrow> real list \<Rightarrow> real list" where
  "wilder_spec period xs = (case xs of [] \<Rightarrow> [] | x # rest \<Rightarrow> x # wilder_rec period x rest)"

text \<open>A series is flat at \<open>c\<close> when high, low and close of every bar are \<open>c\<close>.\<close>

definition flat :: "real \<Rightarrow> bar list \<Rightarrow> bool" where
  "flat c df = (\<forall>b\<in>set df. high b = c \<and> low b = c \<and> close b = c)"

definition flat_bars :: "nat \<Rightarrow> bar list" where
  "flat_bars n = map (\<lambda>i. \<lparr>datetime = int i, opn = 1, high = 1, low = 1, close = 1, volume = 1\<rparr>) [0..<n]"

text \<open>
  The columns of the specification's engine, with every smoothing written as the
  recurrence \<open>wilder_spec\<close> of period 14: the differences of a column, the two
  directional movements (undefined in the first row), and the DX column built from the
  smoothed true range and the smoothed directional movements.
\<close>

definition deltas :: "real list \<Rightarrow> real list" where
  "deltas col = map2 (\<lambda>x prev. x - prev) (tl col) col"

definition dm_real :: "real \<Rightarrow> real \<Rightarrow> real" where
  "dm_real up down = (if up > down \<and> up > 0 then up else 0)"

definition plus_dm :: "real list \<Rightarrow> real list \<Rightarrow> real list" where
  "plus_dm highs lows = map2 dm_real (deltas highs) (map uminus (deltas lows))"

definition minus_dm :: "real list \<Rightarrow> real list \<Rightarrow> real list" where
  "minus_dm highs lows = map2 dm_real (map uminus (deltas lows)) (deltas highs)"

definition rsi_by_recurrence :: "real list \<Rightarrow> real list" where
  "rsi_by_recurrence closes =
     map2 rsi_of (wilder_spec 14 (map gain_of (diff closes)))
                 (wilder_spec 14 (map loss_of (diff closes)))"

definition atr_by_recurrence :: "real list \<Rightarrow> real list \<Rightarrow> real list \<Rightarrow> real list" where
  "atr_by_recurrence highs lows closes = wilder_spec 14 (true_range_col highs lows closes)"

definition dx_by_recurrence :: "real list \<Rightarrow> real list \<Rightarrow> real list \<Rightarrow> real option list" where
  "dx_by_recurrence highs lows closes =
     (let smoothed_tr = wilder_spec 14 (true_range_col highs lows closes);
          smoothed_plus = None # map Some (wilder_spec 14 (plus_dm highs lows));
          smoothed_minus = None # map Some (wilder_spec 14 (minus_dm highs lows))
      in map2 dx_of (map2 di_of smoothed_plus smoothed_tr) (map2 di_of smoothed_minus smoothed_tr))"

text \<open>Three rising bars.\<close>

definition trend_bars :: "bar list" where
  "trend_bars =
     [\<lparr>datetime = 0, opn = 1, high = 2, low = 1, close = 1.5, volume = 1\<rparr>,
      \<lparr>datetime = 1, opn = 1.5, high = 3, low = 1.5, close = 2.5, volume = 1\<rparr>,
      \<lparr>datetime = 2, opn = 2.5, high = 4, low = 2, close = 3.5, volume = 1\<rparr>]"

text \<open>Example values of the indicator engine.\<close>

definition example_frame :: frame where
  "example_frame = \<lparr>fr_datetime = 0, fr_close = 1, ema200 = 1, rsi = 100, adx = 0, atr14 = 0,
     fr_vol_percentile = None, trend_strength = - 0.15\<rparr>"

definition decay_example :: "real list" where
  "decay_example = [14, 0, 0, 0, 0, 0, 0, 0, 0, 0, 0, 0, 0, 0]"

section \<open>Properties of the trade simulator\<close>

lemma simulate_trade_eq:
  assumes "sd_signal sd = BUY \<or> sd_signal sd = SELL" and "current_capital self \<noteq> 0"
  shows "simulate_trade self (Some sd) px t =
     (if \<bar>sd_entry_price sd - sd_stop_loss sd\<bar> \<le> 0 then Inr None
      else Inr (Some \<lparr>entry_time = t, side = sd_signal sd, entry_price = sd_entry_price sd,
         position_size = current_capital self * sd_risk_per_trade sd
            / \<bar>sd_entry_price sd - sd_stop_loss sd\<bar>,
         leverage = clamp (current_capital self * sd_risk_per_trade sd
            / \<bar>sd_entry_price sd - sd_stop_loss sd\<bar> * sd_entry_price sd
            / current_capital self) 1 (max_leverage self),
         stop_loss = sd_stop_loss sd, take_profit = sd_take_profit sd,
         entry_fee = current_capital self * sd_risk_per_trade sd
            / \<bar>sd_entry_price sd - sd_stop_loss sd\<bar> * sd_entry_price sd * trading_fee self,
         pos_mode = sd_mode sd, confidence = sd_confidence sd\<rparr>))"
  using assms unfolding simulate_trade_def clamp_def Let_def
  by (auto simp: max_def min_def)

text \<open>
  C3. A flat simulator that receives a BUY or SELL signal (with a capital that is not
  zero) opens a position sized \<open>equity * risk_per_trade / |entry - stop_loss|\<close>, with
  \<open>leverage = clamp (position_value / equity) 1 max_leverage\<close> and
  \<open>entry_fee = position_value * fee_rate\<close>; when \<open>|entry - stop_loss| \<le> 0\<close> it opens
  nothing and the state is unchanged.
\<close>

theorem flat_signal_opens_position:
  assumes flat: "current_position self = None"
    and sig: "generate_signal params r = Some sd"
    and buy_sell: "sd_signal sd = BUY \<or> sd_signal sd = SELL"
    and cap: "current_capital self \<noteq> 0"
  shows "(\<bar>sd_entry_price sd - sd_stop_loss sd\<bar> \<le> 0 \<longrightarrow> check_entries params self r = Inr self) \<and>
     (\<bar>sd_entry_price sd - sd_stop_loss sd\<bar> > 0 \<longrightarrow>
        (\<exists>p. check_entries params self r = Inr (self\<lparr>current_position := Some p\<rparr>) \<and>
             side p = sd_signal sd \<and> entry_price p = sd_entry_price sd \<and>
             stop_loss p = sd_stop_loss sd \<and>
             position_size p = (current_capital self * sd_risk_per_trade sd)
                 / \<bar>sd_entry_price sd - sd_stop_loss sd\<bar> \<and>
             leverage p = clamp (position_size p * entry_price p / current_capital self)
                 1 (max_leverage self) \<and>
             entry_fee p = position_size p * entry_price p * trading_fee self))"
  using flat sig buy_sell simulate_trade_eq [OF buy_sell cap, of "row_close r" "row_datetime r"]
  by (auto simp: check_entries_def)

lemma generate_signal_example:
  "generate_signal phemex_params example_row =
     Some \<lparr>sd_signal = BUY, sd_confidence = 0.3, sd_mode = conservative, sd_entry_price = 1,
       sd_stop_loss = 0.97, sd_take_profit = 1.05, sd_atr = 0.02, sd_risk_per_trade = 0.02\<rparr>"
  by (simp add: generate_signal_def example_row_def confidence_mode_selector_def
      mode_of_score_def phemex_params_def vol_in_range_def Let_def)

text \<open>
  The instance of the specification: equity 10000, risk per trade 0.02, entry 1.00 and
  stop 0.97 give a position of \<open>200 / 0.03\<close> units and a leverage clamped up to 1.
\<close>

theorem flat_signal_opens_position_witness:
  "\<exists>p. check_entries phemex_params (init_backtester 10000) example_row
          = Inr ((init_backtester 10000)\<lparr>current_position := Some p\<rparr>) \<and>
       position_size p = 200 / 0.03 \<and> leverage p = 1 \<and> entry_fee p = (200 / 0.03) * 0.0004"
proof -
  have "\<exists>p. check_entries phemex_params (init_backtester 10000) example_row
          = Inr ((init_backtester 10000)\<lparr>current_position := Some p\<rparr>) \<and>
       entry_price p = 1 \<and> position_size p = 200 / 0.03 \<and>
       leverage p = clamp (position_size p * entry_price p / 10000) 1 10 \<and>
       entry_fee p = position_size p * entry_price p * 0.0004"
    using flat_signal_opens_position [of "init_backtester 10000" phemex_params example_row,
        OF _ generate_signal_example]
    by (simp add: init_backtester_def) blast
  then obtain p where p: "check_entries phemex_params (init_backtester 10000) example_row
          = Inr ((init_backtester 10000)\<lparr>current_position := Some p\<rparr>)"
       "entry_price p = 1" "position_size p = 200 / 0.03"
       "leverage p = clamp (position_size p * entry_price p / 10000) 1 10"
       "entry_fee p = position_size p * entry_price p * 0.0004"
    by blast
  from p(2-5) have "leverage p = 1" "entry_fee p = (200 / 0.03) * 0.0004"
    by (simp_all add: clamp_def)
  with p(1,3) show ?thesis by blast
qed

text \<open>
  The equity law of a stop-loss or take-profit close: the capital after the close is
  \<open>capital * (1 + leveraged_return) - (entry_fee + exit_fee)\<close>, and the closed trade is
  appended to the log.
\<close>

lemma close_position_equity:
  assumes "close_position self p t reason px = Inr self'"
  shows "current_capital self' =
     current_capital self * (1 + price_change_of p px * leverage p)
       - (entry_fee p + position_size p * px * trading_fee self)"
  using assms unfolding close_position_def Let_def
  by (auto split: if_splits simp: algebra_simps)

text \<open>The close at the end of the data adds the leveraged return and charges no fee.\<close>

lemma close_final_equity:
  assumes "close_final self p last_row = Inr self'"
  shows "current_capital self' =
     current_capital self * (1 + price_change_of p (row_close last_row) * leverage p)"
  using assms unfolding close_final_def Let_def
  by (auto split: if_splits simp: algebra_simps)

lemma check_entries_example:
  "check_entries phemex_params (self\<lparr>current_capital := 10000, max_leverage := 10,
       trading_fee := 0.0004, current_position := None\<rparr>) example_row =
   Inr (self\<lparr>current_capital := 10000, max_leverage := 10,
       trading_fee := 0.0004, current_position := Some example_position\<rparr>)"
proof -
  have r: "row_close example_row = 1" "row_datetime example_row = 0"
    by (simp_all add: example_row_def)
  show ?thesis
    by (simp add: check_entries_def generate_signal_example simulate_trade_def Let_def
        example_position_def r)
qed

lemma process_example_row:
  "process_row phemex_params (init_backtester 10000) example_row =
     Inr \<lparr>current_capital = 10000, max_leverage = 10, trading_fee = 0.0004, trades = [],
          equity_curve = [(0, 10000, 1)], current_position = Some example_position\<rparr>"
  using check_entries_example [of "(init_backtester 10000)\<lparr>equity_curve := [(0, 10000, 1)]\<rparr>"]
  by (simp add: process_row_def init_backtester_def handle_existing_def example_row_def)

lemma process_final_row:
  "process_row phemex_params
     \<lparr>current_capital = 10000, max_leverage = 10, trading_fee = 0.0004, trades = [],
          equity_curve = [(0, 10000, 1)], current_position = Some example_position\<rparr> final_row =
     Inr \<lparr>current_capital = 10000, max_leverage = 10, trading_fee = 0.0004, trades = [],
          equity_curve = [(0, 10000, 1), (1, 10000, 1.01)],
          current_position = Some example_position\<rparr>"
  by (simp add: process_row_def handle_existing_def check_exit_def check_entries_def
      final_row_def example_position_def)

text \<open>
  C1. A run whose position is still open when the data ends: the entry row opens
  \<open>example_position\<close> (entry fee 8/3), the data ends at 1.01, and the capital after
  the forced close is \<open>10000 * (1 + 0.01 * 1) = 10100\<close>: neither the entry fee nor an
  exit fee is charged, so it is not
  \<open>equity_before * (1 + leveraged_return) - (entry_fee + exit_fee)\<close>.
\<close>

theorem end_of_data_close_charges_no_fee:
  "\<exists>self. run_backtest phemex_params 10000 (replicate 250 final_row @ [example_row, final_row])
           = Inr self \<and>
     map capital_after (trades self) = [10100] \<and>
     map exit_reason (trades self) = [''End of Data''] \<and>
     current_capital self = 10000 * (1 + price_change_of example_position 1.01
          * leverage example_position) \<and>
     current_capital self \<noteq> 10000 * (1 + price_change_of example_position 1.01
          * leverage example_position)
        - (entry_fee example_position + position_size example_position * 1.01 * 0.0004)"
proof -
  have sim: "simulate phemex_params (init_backtester 10000) [example_row, final_row] =
     Inr \<lparr>current_capital = 10000, max_leverage = 10, trading_fee = 0.0004, trades = [],
          equity_curve = [(0, 10000, 1), (1, 10000, 1.01)],
          current_position = Some example_position\<rparr>"
    by (simp only: simulate.simps process_example_row process_final_row sum.case)
  have d: "drop 250 (replicate 250 final_row @ [example_row, final_row])
      = [example_row, final_row]"
    by simp
  have l: "last (replicate 250 final_row @ [example_row, final_row]) = final_row"
    by simp
  have "run_backtest phemex_params 10000 (replicate 250 final_row @ [example_row, final_row]) =
     close_final \<lparr>current_capital = 10000, max_leverage = 10, trading_fee = 0.0004, trades = [],
          equity_curve = [(0, 10000, 1), (1, 10000, 1.01)],
          current_position = Some example_position\<rparr> example_position final_row"
    by (simp only: run_backtest_def d l sim sum.case backtester.simps option.case)
  then show ?thesis
    by (simp add: close_final_def price_change_of_def example_position_def final_row_def
        Let_def position.extend_def trade.fields_def)
qed

section \<open>The single position slot\<close>

lemma trade_times:
  "entry_time (position.extend p (trade.fields a b c d e f g)) = entry_time p"
  "exit_time (position.extend p (trade.fields a b c d e f g)) = a"
  by (simp_all add: position.extend_def trade.fields_def)

lemma one_slot_mono: "one_slot now self \<Longrightarrow> now \<le> now' \<Longrightarrow> one_slot now' self"
  by (fastforce simp: one_slot_def)

lemma one_slot_equity:
  "one_slot now (self\<lparr>equity_curve := ec\<rparr>) = one_slot now self"
  by (simp add: one_slot_def no_overlap_def)

lemma handle_existing_one_slot:
  assumes "one_slot now self" and "now \<le> row_datetime r"
    and "handle_existing self r = Inr self'"
  shows "one_slot (row_datetime r) self'"
proof (cases "current_position self")
  case None
  with assms show ?thesis by (auto simp: handle_existing_def intro: one_slot_mono)
next
  case (Some p)
  show ?thesis
  proof (cases "check_exit p (row_close r)")
    case None
    with Some assms show ?thesis by (auto simp: handle_existing_def intro: one_slot_mono)
  next
    case (Some rp)
    obtain reason px where rp: "rp = (reason, px)" by (cases rp)
    from assms(3) \<open>current_position self = Some p\<close> Some rp
    have c: "close_position self p (row_datetime r) reason px = Inr self'"
      by (simp add: handle_existing_def)
    then obtain t where t: "trades self' = trades self @ [t]" "current_position self' = None"
      "entry_time t = entry_time p" "exit_time t = row_datetime r"
      by (auto simp: close_position_def Let_def trade_times split: if_splits)
    from assms(1,2) \<open>current_position self = Some p\<close> t show ?thesis
      by (auto simp: one_slot_def no_overlap_def trades_disjoint_def sorted_wrt_append)
  qed
qed

lemma check_entries_one_slot:
  assumes "one_slot (row_datetime r) self" and "check_entries params self r = Inr self'"
  shows "one_slot (row_datetime r) self'"
proof (cases "current_position self")
  case (Some p)
  with assms show ?thesis by (simp add: check_entries_def)
next
  case None
  have "self' = self \<or> (\<exists>pos. self' = self\<lparr>current_position := Some pos\<rparr> \<and>
      entry_time pos = row_datetime r)"
    using assms(2) None
    by (auto simp: check_entries_def simulate_trade_def Let_def
        split: option.splits if_splits sum.splits)
  with assms(1) show ?thesis
    by (auto simp: one_slot_def no_overlap_def)
qed

lemma process_row_one_slot:
  assumes "one_slot now self" and "now \<le> row_datetime r"
    and "process_row params self r = Inr self'"
  shows "one_slot (row_datetime r) self'"
proof -
  let ?s1 = "self\<lparr>equity_curve :=
     equity_curve self @ [(row_datetime r, current_capital self, row_close r)]\<rparr>"
  from assms(3) obtain s2 where s2: "handle_existing ?s1 r = Inr s2"
    "check_entries params s2 r = Inr self'"
    by (auto simp: process_row_def Let_def split: sum.splits)
  from assms(1) have "one_slot now ?s1" by (simp add: one_slot_equity)
  from handle_existing_one_slot [OF this assms(2) s2(1)] check_entries_one_slot s2(2)
  show ?thesis by blast
qed

lemma simulate_one_slot:
  assumes "sorted (map row_datetime rs)" and "\<forall>r\<in>set rs. now \<le> row_datetime r"
    and "one_slot now self" and "simulate params self rs = Inr self'"
  shows "one_slot (last (now # map row_datetime rs)) self'"
  using assms
proof (induction rs arbitrary: self now)
  case Nil
  then show ?case by simp
next
  case (Cons r rs)
  from Cons.prems(4) obtain s1 where s1: "process_row params self r = Inr s1"
    "simulate params s1 rs = Inr self'"
    by (auto split: sum.splits)
  from Cons.prems(2) have le: "now \<le> row_datetime r" by simp
  have o: "one_slot (row_datetime r) s1"
    by (rule process_row_one_slot [OF Cons.prems(3) le s1(1)])
  from Cons.prems(1) have srt: "sorted (map row_datetime rs)"
    "\<forall>x\<in>set rs. row_datetime r \<le> row_datetime x" by auto
  from Cons.IH [OF srt o s1(2)] show ?case by simp
qed

lemma one_slot_init: "one_slot now (init_backtester c)"
  by (simp add: one_slot_def no_overlap_def trades_disjoint_def init_backtester_def)

lemma open_position_blocks_entry:
  assumes "current_position self = Some p" and "check_exit p (row_close r) = None"
  shows "process_row params self r = Inr (self\<lparr>equity_curve :=
     equity_curve self @ [(row_datetime r, current_capital self, row_close r)]\<rparr>)"
  using assms by (simp add: process_row_def handle_existing_def check_entries_def)

lemma simulate_from_init:
  assumes "sorted (map row_datetime rs)" and "simulate params (init_backtester c) rs = Inr self"
  shows "rs \<noteq> [] \<longrightarrow> one_slot (row_datetime (last rs)) self"
    and "rs = [] \<longrightarrow> self = init_backtester c"
proof -
  show "rs = [] \<longrightarrow> self = init_backtester c" using assms(2) by auto
  show "rs \<noteq> [] \<longrightarrow> one_slot (row_datetime (last rs)) self"
  proof
    assume ne: "rs \<noteq> []"
    then obtain r rs' where rs: "rs = r # rs'" by (cases rs) auto
    from assms(1) rs have "\<forall>x\<in>set rs. row_datetime r \<le> row_datetime x" by auto
    from simulate_one_slot [OF assms(1) this one_slot_init assms(2)]
    have "one_slot (last (row_datetime r # map row_datetime rs)) self" .
    with ne show "one_slot (row_datetime (last rs)) self"
      by (simp add: last_map)
  qed
qed

lemma sorted_take_drop:
  assumes "sorted (map row_datetime prepared)"
  shows "sorted (map row_datetime (take n (drop k prepared)))"
proof -
  have "sorted (take n (drop k (map row_datetime prepared)))"
    using assms by (intro sorted_wrt_take sorted_wrt_drop)
  then show ?thesis by (simp add: take_map drop_map)
qed

text \<open>
  C8. The simulator has one position slot. A row on which the open position is not
  exited leaves that position in place and opens nothing. When the rows are in time order,
  after any number of simulated bars the logged trades are pairwise disjoint in time and
  the open position was entered after all of them were closed; the trade log of a
  complete run, with the forced close, is pairwise disjoint in time.
\<close>

theorem single_position_slot:
  "(current_position self = Some p \<and> check_exit p (row_close r) = None \<longrightarrow>
      process_row params self r = Inr (self\<lparr>equity_curve :=
        equity_curve self @ [(row_datetime r, current_capital self, row_close r)]\<rparr>)) \<and>
   (sorted (map row_datetime prepared) \<longrightarrow>
      (\<forall>n s. simulate params (init_backtester c) (take n (drop 250 prepared)) = Inr s
          \<longrightarrow> no_overlap s) \<and>
      (\<forall>s. run_backtest params c prepared = Inr s \<longrightarrow> trades_disjoint (trades s)))"
proof (intro conjI impI allI)
  assume "current_position self = Some p \<and> check_exit p (row_close r) = None"
  then show "process_row params self r = Inr (self\<lparr>equity_curve :=
        equity_curve self @ [(row_datetime r, current_capital self, row_close r)]\<rparr>)"
    by (simp add: open_position_blocks_entry)
next
  fix n s
  assume srt: "sorted (map row_datetime prepared)"
    and sim: "simulate params (init_backtester c) (take n (drop 250 prepared)) = Inr s"
  let ?rs = "take n (drop 250 prepared)"
  from simulate_from_init [OF sorted_take_drop [OF srt] sim]
  have "?rs \<noteq> [] \<longrightarrow> one_slot (row_datetime (last ?rs)) s"
    and "?rs = [] \<longrightarrow> s = init_backtester c" .
  then show "no_overlap s"
    using one_slot_init [of 0 c] by (cases "?rs = []") (auto simp: one_slot_def)
next
  fix s
  assume srt: "sorted (map row_datetime prepared)"
    and run: "run_backtest params c prepared = Inr s"
  let ?rs = "drop 250 prepared"
  from run obtain s1 where s1: "simulate params (init_backtester c) ?rs = Inr s1"
    by (auto simp: run_backtest_def split: sum.splits)
  have srt': "sorted (map row_datetime ?rs)"
    using sorted_take_drop [OF srt, of "length prepared" 250] by simp
  note fi = simulate_from_init [OF srt' s1]
  show "trades_disjoint (trades s)"
  proof (cases "current_position s1")
    case None
    with run s1 have "s = s1" by (simp add: run_backtest_def)
    with fi one_slot_init [of 0 c] show ?thesis
      by (cases "?rs = []") (auto simp: one_slot_def no_overlap_def)
  next
    case (Some p)
    with fi(2) have ne: "?rs \<noteq> []" by (auto simp: init_backtester_def)
    then have l: "last ?rs = last prepared" by simp
    from fi(1) ne l have o: "one_slot (row_datetime (last prepared)) s1" by simp
    from run s1 Some have "close_final s1 p (last prepared) = Inr s"
      by (simp add: run_backtest_def)
    then obtain t where t: "trades s = trades s1 @ [t]" "entry_time t = entry_time p"
      "exit_time t = row_datetime (last prepared)"
      by (auto simp: close_final_def Let_def trade_times split: if_splits)
    from o Some t show ?thesis
      by (auto simp: one_slot_def no_overlap_def trades_disjoint_def sorted_wrt_append)
  qed
qed

lemma generate_signal_reentry:
  "generate_signal phemex_params reentry_row =
     Some \<lparr>sd_signal = BUY, sd_confidence = 0.3, sd_mode = conservative, sd_entry_price = 1.06,
       sd_stop_loss = 1.03, sd_take_profit = 1.11, sd_atr = 0.02, sd_risk_per_trade = 0.02\<rparr>"
  by (simp add: generate_signal_def reentry_row_def confidence_mode_selector_def
      mode_of_score_def phemex_params_def vol_in_range_def Let_def)

lemma process_reentry_row:
  "\<exists>s. process_row phemex_params
     \<lparr>current_capital = 10000, max_leverage = 10, trading_fee = 0.0004, trades = [],
          equity_curve = [(0, 10000, 1)], current_position = Some example_position\<rparr> reentry_row
     = Inr s \<and> map entry_time (trades s) = [0] \<and> map exit_time (trades s) = [1] \<and>
       (\<exists>p. current_position s = Some p \<and> entry_time p = 1 \<and> side p = BUY \<and>
            stop_loss p = 1.03 \<and> entry_price p = 1.06)"
proof -
  have r: "row_close reentry_row = 1.06" "row_datetime reentry_row = 1"
    by (simp_all add: reentry_row_def)
  show ?thesis
    by (simp add: process_row_def handle_existing_def check_exit_def close_position_def
      check_entries_def generate_signal_reentry simulate_trade_def price_change_of_def
      example_position_def r Let_def position.extend_def trade.fields_def)
qed

lemma process_final_row_stop:
  assumes "current_position s = Some p" and "side p = BUY" and "stop_loss p = 1.03"
    and "entry_price p = 1.06"
  shows "\<exists>s'. process_row params s final_row = Inr s' \<and> current_position s' = None \<and>
     map entry_time (trades s') = map entry_time (trades s) @ [entry_time p] \<and>
     map exit_time (trades s') = map exit_time (trades s) @ [1]"
  using assms
  by (simp add: process_row_def handle_existing_def check_exit_def close_position_def
      check_entries_def generate_signal_def final_row_def Let_def trade_times)

lemma two_trade_run:
  "\<exists>s. run_backtest phemex_params 10000 two_trade_rows = Inr s \<and>
       map entry_time (trades s) = [0, 1] \<and> map exit_time (trades s) = [1, 1]"
proof -
  have d: "drop 250 two_trade_rows = [example_row, reentry_row, final_row]"
    by (simp add: two_trade_rows_def)
  obtain s2 p where s2: "process_row phemex_params
     \<lparr>current_capital = 10000, max_leverage = 10, trading_fee = 0.0004, trades = [],
          equity_curve = [(0, 10000, 1)], current_position = Some example_position\<rparr> reentry_row
     = Inr s2" "map entry_time (trades s2) = [0]" "map exit_time (trades s2) = [1]"
     "current_position s2 = Some p" "entry_time p = 1" "side p = BUY"
     "stop_loss p = 1.03" "entry_price p = 1.06"
    using process_reentry_row by auto
  obtain s3 where s3: "process_row phemex_params s2 final_row = Inr s3"
    "current_position s3 = None"
    "map entry_time (trades s3) = map entry_time (trades s2) @ [entry_time p]"
    "map exit_time (trades s3) = map exit_time (trades s2) @ [1]"
    using process_final_row_stop [OF s2(4) s2(6,7,8), of phemex_params] by auto
  have "simulate phemex_params (init_backtester 10000) [example_row, reentry_row, final_row]
      = Inr s3"
    by (simp only: simulate.simps process_example_row s2(1) s3(1) sum.case)
  then have "run_backtest phemex_params 10000 two_trade_rows = Inr s3"
    by (simp only: run_backtest_def d sum.case s3(2) option.case)
  with s2 s3 show ?thesis by simp
qed

theorem single_position_slot_witness:
  "process_row phemex_params ((init_backtester 10000)\<lparr>current_position := Some example_position\<rparr>)
       final_row
     = Inr ((init_backtester 10000)\<lparr>current_position := Some example_position,
              equity_curve := [(1, 10000, 1.01)]\<rparr>) \<and>
   sorted (map row_datetime two_trade_rows) \<and>
   (\<exists>s. run_backtest phemex_params 10000 two_trade_rows = Inr s \<and>
       map entry_time (trades s) = [0, 1] \<and> map exit_time (trades s) = [1, 1] \<and>
       trades_disjoint (trades s))"
proof -
  let ?st = "(init_backtester 10000)\<lparr>current_position := Some example_position\<rparr>"
  note slot = single_position_slot [of ?st example_position final_row phemex_params
      two_trade_rows 10000]
  have ce: "check_exit example_position (row_close final_row) = None"
    by (simp add: check_exit_def example_position_def final_row_def)
  have st: "current_position ?st = Some example_position" by simp
  from slot st ce have "process_row phemex_params ?st final_row = Inr (?st\<lparr>equity_curve :=
        equity_curve ?st @ [(row_datetime final_row, current_capital ?st, row_close final_row)]\<rparr>)"
    by simp
  then have step: "process_row phemex_params ?st final_row
     = Inr ((init_backtester 10000)\<lparr>current_position := Some example_position,
              equity_curve := [(1, 10000, 1.01)]\<rparr>)"
    by (simp add: init_backtester_def final_row_def)
  have srt: "sorted (map row_datetime two_trade_rows)"
    by (simp add: two_trade_rows_def sorted_append example_row_def reentry_row_def final_row_def)
  obtain s where s: "run_backtest phemex_params 10000 two_trade_rows = Inr s"
    "map entry_time (trades s) = [0, 1]" "map exit_time (trades s) = [1, 1]"
    using two_trade_run by auto
  from slot srt s(1) have "trades_disjoint (trades s)" by simp
  with step srt s show ?thesis by (intro conjI exI [of _ s]) simp_all
qed

section \<open>Properties of the signal generator and the mode selector\<close>

lemma mode_of_score_selected:
  "mode_of_score (map_option (confidence_mode_selector \<bar>ct\<bar>) (Some v)) = selected_mode ct v"
  by (simp add: mode_of_score_def confidence_mode_selector_def selected_mode_def Let_def)

lemma generate_signal_view:
  assumes ct: "combined_trend r = Some ct"
    and al: "timeframe_alignment r = Some al"
    and v: "vol_percentile r = Some v"
  shows "map_option sd_mode (generate_signal params r) = Some (selected_mode ct v)"
    and "map_option sd_signal (generate_signal params r) =
      Some (if trend_vol_gates (params (selected_mode ct v)) ct v \<and> al > 0.3
            then (if ct > 0 then BUY else SELL) else NEUTRAL)"
  unfolding generate_signal_def Let_def ct al v option.case prod.case mode_of_score_selected
  by (simp_all add: trend_vol_gates_def vol_in_range_def)

lemma live_signal_view:
  assumes ct: "combined_trend r = Some ct"
    and al: "timeframe_alignment r = Some al"
    and v: "vol_percentile r = Some v"
  shows "snd (snd (live_signal r)) = Some (selected_mode ct v)"
    and "fst (live_signal r) =
      (if trend_vol_gates (phemex_params (selected_mode ct v)) ct v
       then (if ct > 0 then BUY else SELL) else NEUTRAL)"
  unfolding live_signal_def Let_def ct al v option.case prod.case mode_of_score_selected
  by (auto simp add: trend_vol_gates_def vol_filter_triggered_def split: prod.splits)

lemma gates_nonzero:
  assumes "0 < trend_strength_threshold p" and "trend_vol_gates p ct v"
  shows "ct > 0 \<or> ct < 0"
  using assms by (auto simp: trend_vol_gates_def)

text \<open>
  C4. On a row whose combined trend, alignment and volatility percentile are defined,
  with positive trend thresholds, the backtester's signal is BUY exactly when all gates
  hold (trend range, volatility range, alignment above 0.3) and the combined trend is
  positive, SELL exactly when they hold and it is negative, and NEUTRAL exactly when a
  gate fails; the live signal does the same with the trend and volatility gates only.
  The gates are those of the mode selected for the row.
\<close>

theorem signal_follows_gates:
  assumes ct: "combined_trend r = Some ct"
    and al: "timeframe_alignment r = Some al"
    and v: "vol_percentile r = Some v"
    and thr: "\<forall>m. 0 < trend_strength_threshold (params m)"
  shows "(\<exists>sd. generate_signal params r = Some sd \<and> sd_mode sd = selected_mode ct v \<and>
            (sd_signal sd = BUY \<longleftrightarrow>
               trend_vol_gates (params (selected_mode ct v)) ct v \<and> al > 0.3 \<and> ct > 0) \<and>
            (sd_signal sd = SELL \<longleftrightarrow>
               trend_vol_gates (params (selected_mode ct v)) ct v \<and> al > 0.3 \<and> ct < 0) \<and>
            (sd_signal sd = NEUTRAL \<longleftrightarrow>
               \<not> (trend_vol_gates (params (selected_mode ct v)) ct v \<and> al > 0.3))) \<and>
         (fst (live_signal r) = BUY \<longleftrightarrow>
               trend_vol_gates (phemex_params (selected_mode ct v)) ct v \<and> ct > 0) \<and>
         (fst (live_signal r) = SELL \<longleftrightarrow>
               trend_vol_gates (phemex_params (selected_mode ct v)) ct v \<and> ct < 0) \<and>
         (fst (live_signal r) = NEUTRAL \<longleftrightarrow>
               \<not> trend_vol_gates (phemex_params (selected_mode ct v)) ct v)"
proof -
  have pos: "0 < trend_strength_threshold (params (selected_mode ct v))"
    using thr by blast
  have ppos: "0 < trend_strength_threshold (phemex_params (selected_mode ct v))"
    by (cases "selected_mode ct v") (simp_all add: phemex_params_def)
  note nz = gates_nonzero [OF pos] gates_nonzero [OF ppos]
  obtain sd where sd: "generate_signal params r = Some sd"
    using generate_signal_view(1) [OF ct al v, of params] by (cases "generate_signal params r") auto
  have m: "sd_mode sd = selected_mode ct v"
    using generate_signal_view(1) [OF ct al v, of params] sd by simp
  have sg: "sd_signal sd =
      (if trend_vol_gates (params (selected_mode ct v)) ct v \<and> al > 0.3
       then (if ct > 0 then BUY else SELL) else NEUTRAL)"
    using generate_signal_view(2) [OF ct al v, of params] sd by simp
  have bt: "(sd_signal sd = BUY \<longleftrightarrow>
               trend_vol_gates (params (selected_mode ct v)) ct v \<and> al > 0.3 \<and> ct > 0) \<and>
            (sd_signal sd = SELL \<longleftrightarrow>
               trend_vol_gates (params (selected_mode ct v)) ct v \<and> al > 0.3 \<and> ct < 0) \<and>
            (sd_signal sd = NEUTRAL \<longleftrightarrow>
               \<not> (trend_vol_gates (params (selected_mode ct v)) ct v \<and> al > 0.3))"
    using nz(1) unfolding sg by auto
  have lv: "(fst (live_signal r) = BUY \<longleftrightarrow>
               trend_vol_gates (phemex_params (selected_mode ct v)) ct v \<and> ct > 0) \<and>
         (fst (live_signal r) = SELL \<longleftrightarrow>
               trend_vol_gates (phemex_params (selected_mode ct v)) ct v \<and> ct < 0) \<and>
         (fst (live_signal r) = NEUTRAL \<longleftrightarrow>
               \<not> trend_vol_gates (phemex_params (selected_mode ct v)) ct v)"
    using nz(2) unfolding live_signal_view(2) [OF ct al v] by auto
  from sd m bt lv show ?thesis by blast
qed

lemma phemex_threshold_pos: "0 < trend_strength_threshold (phemex_params m)"
  by (cases m) (simp_all add: phemex_params_def)

theorem signal_follows_gates_witness:
  "(\<exists>sd. generate_signal phemex_params example_row = Some sd \<and> sd_mode sd = conservative \<and>
      sd_signal sd = BUY) \<and>
   fst (live_signal example_row) = BUY \<and>
   trend_vol_gates (phemex_params conservative) 0.3 80"
proof -
  have g: "trend_vol_gates (phemex_params conservative) 0.3 80"
    by (simp add: trend_vol_gates_def phemex_params_def)
  have m: "selected_mode 0.3 80 = conservative"
    by (simp add: selected_mode_def)
  show ?thesis
    using signal_follows_gates [of example_row "0.3" 1 80 phemex_params] g
    by (simp add: example_row_def m phemex_threshold_pos) blast
qed




section \<open>Properties of the performance metrics\<close>

lemma sum_list_nonpos_real: "\<forall>x\<in>set xs. x < (0::real) \<Longrightarrow> sum_list xs \<le> 0"
  by (induction xs) auto

lemma sum_list_neg: "xs \<noteq> [] \<Longrightarrow> \<forall>x\<in>set xs. x < (0::real) \<Longrightarrow> sum_list xs < 0"
  using sum_list_nonpos_real [of "tl xs"] by (cases xs) auto

lemma gross_loss_pos:
  assumes "\<exists>t\<in>set ts. pnl_dollar t < 0"
  shows "gross_loss_of ts > 0"
proof -
  let ?ls = "map pnl_dollar (filter (\<lambda>t. pnl_dollar t < 0) ts)"
  from assms have "?ls \<noteq> []" by (auto simp: filter_empty_conv)
  moreover have "\<forall>x\<in>set ?ls. x < 0" by auto
  ultimately have "sum_list ?ls < 0" by (rule sum_list_neg)
  then show ?thesis by (simp add: gross_loss_of_def)
qed

lemma gross_loss_zero:
  assumes "\<forall>t\<in>set ts. \<not> pnl_dollar t < 0"
  shows "gross_loss_of ts = 0"
proof -
  from assms have "filter (\<lambda>t. pnl_dollar t < 0) ts = []" by (auto simp: filter_empty_conv)
  then show ?thesis by (simp add: gross_loss_of_def)
qed

lemma gross_profit_sum:
  "gross_profit_of ts = (\<Sum>t\<leftarrow>ts. if pnl_dollar t > 0 then pnl_dollar t else 0)"
  by (simp add: gross_profit_of_def sum_list_map_filter')

lemma gross_loss_sum:
  "gross_loss_of ts = \<bar>\<Sum>t\<leftarrow>ts. if pnl_dollar t < 0 then pnl_dollar t else 0\<bar>"
  by (simp add: gross_loss_of_def sum_list_map_filter')

text \<open>
  C9. With at least one losing trade the profit factor is the sum of the P&L of the
  winning trades divided by the absolute value of the sum of the P&L of the losing trades
  (which is positive); with at least one winning trade and no losing trade it is
  \<open>+\<infinity>\<close>; on the empty trade log it is 0.
\<close>

theorem profit_factor_cases:
  "((\<exists>t\<in>set ts. pnl_dollar t < 0) \<longrightarrow>
       profit_factor ts =
         Fin ((\<Sum>t\<leftarrow>ts. if pnl_dollar t > 0 then pnl_dollar t else 0)
              / \<bar>\<Sum>t\<leftarrow>ts. if pnl_dollar t < 0 then pnl_dollar t else 0\<bar>) \<and>
       \<bar>\<Sum>t\<leftarrow>ts. if pnl_dollar t < 0 then pnl_dollar t else 0\<bar> > 0) \<and>
   ((\<exists>t\<in>set ts. pnl_dollar t > 0) \<and> (\<forall>t\<in>set ts. \<not> pnl_dollar t < 0) \<longrightarrow>
       profit_factor ts = PosInf) \<and>
   profit_factor [] = Fin 0"
proof (intro conjI impI)
  assume a: "\<exists>t\<in>set ts. pnl_dollar t < 0"
  then have "ts \<noteq> []" by auto
  moreover from a have g: "gross_loss_of ts > 0" by (rule gross_loss_pos)
  ultimately have "profit_factor ts = Fin (gross_profit_of ts / gross_loss_of ts)"
    by (simp add: profit_factor_def Let_def)
  then show "profit_factor ts =
         Fin ((\<Sum>t\<leftarrow>ts. if pnl_dollar t > 0 then pnl_dollar t else 0)
              / \<bar>\<Sum>t\<leftarrow>ts. if pnl_dollar t < 0 then pnl_dollar t else 0\<bar>)"
    by (simp only: gross_profit_sum gross_loss_sum)
  from g show "\<bar>\<Sum>t\<leftarrow>ts. if pnl_dollar t < 0 then pnl_dollar t else 0\<bar> > 0"
    by (simp only: gross_loss_sum)
next
  assume a: "(\<exists>t\<in>set ts. pnl_dollar t > 0) \<and> (\<forall>t\<in>set ts. \<not> pnl_dollar t < 0)"
  then have "ts \<noteq> []" by auto
  moreover from a have "gross_loss_of ts = 0" by (simp add: gross_loss_zero)
  ultimately show "profit_factor ts = PosInf"
    by (simp add: profit_factor_def Let_def)
next
  show "profit_factor [] = Fin 0" by (simp add: profit_factor_def)
qed

lemma pnl_dollar_example_trade: "pnl_dollar (example_trade x) = x"
  by (simp add: example_trade_def position.extend_def trade.fields_def)

theorem profit_factor_cases_witness:
  "profit_factor [example_trade 30, example_trade (-10), example_trade 20] = Fin 5 \<and>
   profit_factor [example_trade 30, example_trade 0] = PosInf \<and>
   profit_factor [] = Fin 0"
  using profit_factor_cases [of "[example_trade 30, example_trade (-10), example_trade 20]"]
    profit_factor_cases [of "[example_trade 30, example_trade 0]"]
  by (simp add: pnl_dollar_example_trade)

section \<open>Properties of the smoothing\<close>

lemma ewm_step:
  "(if w \<noteq> x then ((1 - 1 / p) * w + (1 / p) * x) / ((1 - 1 / p) + 1 / p) else w)
     = w + (1 / p) * (x - (w::real))"
proof -
  have "(1 - 1 / p) * w + (1 / p) * x = w + (1 / p) * (x - w)"
    by (simp add: algebra_simps diff_divide_distrib)
  then show ?thesis by simp
qed

lemma ewm_run_real_rec:
  "ewm_run_real (1 / p) w xs = wilder_rec p w xs"
proof (induction xs arbitrary: w)
  case Nil
  show ?case by simp
next
  case (Cons x xs)
  show ?case
    unfolding ewm_run_real.simps wilder_rec.simps Let_def ewm_step
    by (simp add: Cons.IH)
qed

lemma wilder_smooth_real_spec:
  "wilder_smooth_real xs period = wilder_spec (real period) xs"
  by (simp add: wilder_smooth_real_def ewm_mean_real_def wilder_spec_def ewm_run_real_rec
      split: list.splits)

lemma ewm_run_Some:
  "ewm_run alpha (Some w) 1 (map Some xs) = map Some (ewm_run_real alpha w xs)"
  by (induction xs arbitrary: w) (auto simp: Let_def)

lemma ewm_mean_Some: "ewm_mean alpha (map Some xs) = map Some (ewm_mean_real alpha xs)"
  by (cases xs) (simp_all add: ewm_mean_def ewm_mean_real_def ewm_run_Some)

lemma ewm_run_leading:
  "ewm_run alpha None 1 (replicate k None @ map Some xs)
     = replicate k None @ map Some (ewm_mean_real alpha xs)"
proof (induction k)
  case 0
  show ?case
    by (cases xs) (simp_all add: ewm_mean_real_def ewm_run_Some)
next
  case (Suc k)
  then show ?case by simp
qed

lemma ewm_mean_leading:
  "ewm_mean alpha (replicate k None @ map Some xs)
     = replicate k None @ map Some (ewm_mean_real alpha xs)"
proof (cases k)
  case 0
  then show ?thesis by (simp add: ewm_mean_Some)
next
  case (Suc j)
  then show ?thesis by (simp add: ewm_mean_def ewm_run_leading)
qed

lemma wilder_rec_nth:
  "i < length xs \<Longrightarrow>
     wilder_rec p w xs ! i =
       (if i = 0 then w else wilder_rec p w xs ! (i - 1))
        + (1 / p) * (xs ! i - (if i = 0 then w else wilder_rec p w xs ! (i - 1)))"
proof (induction xs arbitrary: w i)
  case Nil
  then show ?case by simp
next
  case (Cons x xs)
  show ?case
  proof (cases i)
    case 0
    then show ?thesis by (simp add: Let_def)
  next
    case (Suc j)
    with Cons.prems have j: "j < length xs" by simp
    from Cons.IH [OF j, of "w + (1 / p) * (x - w)"] Suc show ?thesis
      by (cases j) (simp_all add: Let_def)
  qed
qed

lemma length_wilder_rec [simp]: "length (wilder_rec p w xs) = length xs"
  by (induction xs arbitrary: w) (simp_all add: Let_def)

lemma length_wilder_spec [simp]: "length (wilder_spec p xs) = length xs"
  by (cases xs) (simp_all add: wilder_spec_def)

lemma wilder_spec_nth:
  assumes "i < length xs"
  shows "wilder_spec p xs ! i =
     (if i = 0 then xs ! 0
      else wilder_spec p xs ! (i - 1) + (1 / p) * (xs ! i - wilder_spec p xs ! (i - 1)))"
proof (cases xs)
  case Nil
  with assms show ?thesis by simp
next
  case (Cons x rest)
  show ?thesis
  proof (cases i)
    case 0
    with Cons show ?thesis by (simp add: wilder_spec_def)
  next
    case (Suc j)
    with assms Cons have j: "j < length rest" by simp
    from wilder_rec_nth [OF j, of p x] Suc Cons show ?thesis
      by (cases j) (simp_all add: wilder_spec_def)
  qed
qed

section \<open>The indicator engine on a flat series\<close>

lemma ewm_run_real_const: "ewm_run_real alpha c (replicate n c) = replicate n c"
  by (induction n) simp_all

lemma ewm_mean_real_const: "ewm_mean_real alpha (replicate n c) = replicate n c"
  by (cases n) (simp_all add: ewm_mean_real_def ewm_run_real_const)

lemma ema_const: "ema k (replicate n c) = replicate n c"
  by (simp add: ema_def ewm_mean_real_const)

lemma wilder_smooth_real_const: "wilder_smooth_real (replicate n c) p = replicate n c"
  by (simp add: wilder_smooth_real_def ewm_mean_real_const)

lemma map2_replicate: "map2 f (replicate n a) (replicate n b) = replicate n (f a b)"
  by (induction n) simp_all

lemma map2_replicate_Cons:
  "map2 f (replicate n a) (b # replicate n b) = replicate n (f a b)"
  by (induction n) simp_all

lemma diff_const: "diff (replicate (Suc n) c) = None # replicate n (Some 0)"
  by (simp add: diff_def map2_replicate_Cons)

lemma wilder_smooth_const_leading:
  "wilder_smooth (None # replicate n (Some c)) p = None # replicate n (Some c)"
  using ewm_mean_leading [of "1 / real p" 1 "replicate n c"]
  by (simp add: wilder_smooth_def ewm_mean_real_const)

lemma wilder_smooth_const:
  "wilder_smooth (replicate n (Some c)) p = replicate n (Some c)"
  using ewm_mean_Some [of "1 / real p" "replicate n c"]
  by (simp add: wilder_smooth_def ewm_mean_real_const)

lemma true_range_col_const:
  "true_range_col (replicate n c) (replicate n c) (replicate n c) = replicate n 0"
  by (auto simp: true_range_col_def list_eq_iff_nth_eq)

lemma adx_const:
  "calculate_tradingview_adx (replicate (Suc n) c) (replicate (Suc n) c) (replicate (Suc n) c)
     = replicate (Suc n) 0"
proof -
  have dm: "map2 dm_of (None # replicate n (Some 0)) (None # replicate n (Some 0))
      = None # replicate n (Some 0)"
    by (simp add: map2_replicate dm_of_def gt_def)
  have di: "map2 di_of (None # replicate n (Some 0)) (replicate (Suc n) 0)
      = replicate (Suc n) (DI 0)"
    by (simp add: map2_replicate di_of_def)
  have dx: "map2 dx_of (replicate (Suc n) (DI 0)) (replicate (Suc n) (DI 0))
      = replicate (Suc n) (Some 0)"
    by (simp only: map2_replicate) (simp add: dx_of_def)
  show ?thesis
    unfolding calculate_tradingview_adx_def Let_def diff_const
    by (simp only: list.map option.map minus_zero dm true_range_col_const
        wilder_smooth_real_const wilder_smooth_const_leading di dx wilder_smooth_const
        map_replicate) (simp add: fillna_def)
qed

lemma flat_columns:
  assumes "flat c df"
  shows "map close df = replicate (length df) c" "map high df = replicate (length df) c"
    "map low df = replicate (length df) c"
  using assms by (auto simp: flat_def list_eq_iff_nth_eq)

lemma calculate_indicators_flat:
  assumes fl: "flat c df" and ne: "df \<noteq> []"
  shows "calculate_indicators vol_col df =
     Inr (map (\<lambda>i. \<lparr>fr_datetime = datetime (df ! i), fr_close = c, ema200 = c, rsi = 100,
                     adx = 0, atr14 = 0, fr_vol_percentile = vol_col i,
                     trend_strength = - 0.15\<rparr>) [0..<length df])"
proof -
  from ne obtain n where n: "length df = Suc n" by (cases df) auto
  have g: "map gain_of (None # replicate n (Some 0)) = replicate (Suc n) 0"
    "map loss_of (None # replicate n (Some 0)) = replicate (Suc n) 0"
    by (simp_all add: gain_of_def loss_of_def)
  have r: "map2 rsi_of (replicate (Suc n) 0) (replicate (Suc n) 0) = replicate (Suc n) 100"
    by (simp only: map2_replicate) (simp add: rsi_of_def)
  have m: "map2 (-) (replicate (Suc n) c) (replicate (Suc n) c) = replicate (Suc n) 0"
    by (simp only: map2_replicate) simp
  show ?thesis
    unfolding calculate_indicators_def Let_def flat_columns [OF fl] n
    unfolding ema_const m diff_const g wilder_smooth_real_const r adx_const true_range_col_const
    using ne n
    by (auto simp: trend_strength_of_def b2r_def pm1_def simp del: replicate.simps)
qed

section \<open>Bounds\<close>

lemma b2r_range: "0 \<le> b2r c \<and> b2r c \<le> 1"
  by (simp add: b2r_def)

lemma pm1_range: "- 1 \<le> pm1 c \<and> pm1 c \<le> 1"
  by (simp add: pm1_def)

lemma trend_strength_of_bound: "\<bar>trend_strength_of a b p q r s t\<bar> \<le> 1"
proof -
  let ?raw = "b2r a * 0.3 - b2r b * 0.3 + pm1 p * 0.15 + pm1 q * 0.15 + pm1 r * 0.2 + pm1 s * 0.2"
  have raw: "\<bar>?raw\<bar> \<le> 1"
    using b2r_range [of a] b2r_range [of b] pm1_range [of p] pm1_range [of q]
      pm1_range [of r] pm1_range [of s]
    by (simp add: abs_le_iff)
  have k: "0 \<le> 0.5 + 0.5 * b2r t" "0.5 + 0.5 * b2r t \<le> 1"
    using b2r_range [of t] by simp_all
  have "\<bar>?raw * (0.5 + 0.5 * b2r t)\<bar> = \<bar>?raw\<bar> * (0.5 + 0.5 * b2r t)"
    using k(1) by (simp add: abs_mult)
  also have "\<dots> \<le> 1 * 1"
    using raw k by (intro mult_mono) simp_all
  finally show ?thesis by (simp add: trend_strength_of_def Let_def)
qed

lemma trend_strength_bounded:
  assumes "calculate_indicators vol_col df = Inr frames" and "f \<in> set frames"
  shows "\<bar>trend_strength f\<bar> \<le> 1"
proof -
  from assms(1) have ne: "df \<noteq> []"
    by (auto simp: calculate_indicators_def split: if_splits)
  from assms ne show ?thesis
    by (auto simp: calculate_indicators_def Let_def trend_strength_of_bound)
qed

lemma asof_trend_in:
  assumes "asof_trend df t = Some x"
  shows "\<exists>f\<in>set df. fr_datetime f \<le> t \<and> trend_strength f = x"
proof -
  let ?fs = "filter (\<lambda>f. fr_datetime f \<le> t) df"
  from assms have ne: "?fs \<noteq> []" and x: "x = trend_strength (last ?fs)"
    by (auto simp: asof_trend_def split: list.splits)
  from ne have "last ?fs \<in> set ?fs" by (rule last_in_set)
  with x show ?thesis by auto
qed

lemma asof_trend_None:
  "asof_trend df t = None \<longleftrightarrow> \<not> (\<exists>f\<in>set df. fr_datetime f \<le> t)"
proof -
  have "asof_trend df t = None \<longleftrightarrow> filter (\<lambda>f. fr_datetime f \<le> t) df = []"
    by (simp add: asof_trend_def split: list.splits)
  then show ?thesis by (simp add: filter_empty_conv)
qed

lemma combined_bounds:
  fixes d m l :: real
  assumes "\<bar>d\<bar> \<le> 1" "\<bar>m\<bar> \<le> 1" "\<bar>l\<bar> \<le> 1"
  shows "\<bar>d * 0.5 + m * 0.3 + l * 0.2\<bar> \<le> 1"
    and "0 \<le> 1.0 - (\<bar>d - m\<bar> * 0.4 + \<bar>d - l\<bar> * 0.4 + \<bar>m - l\<bar> * 0.2) / 2.0"
    and "1.0 - (\<bar>d - m\<bar> * 0.4 + \<bar>d - l\<bar> * 0.4 + \<bar>m - l\<bar> * 0.2) / 2.0 \<le> 1"
proof -
  from assms have "\<bar>d - m\<bar> \<le> 2" "\<bar>d - l\<bar> \<le> 2" "\<bar>m - l\<bar> \<le> 2"
    by (simp_all add: abs_le_iff)
  moreover have "0 \<le> \<bar>d - m\<bar>" "0 \<le> \<bar>d - l\<bar>" "0 \<le> \<bar>m - l\<bar>"
    by simp_all
  ultimately show
    "0 \<le> 1.0 - (\<bar>d - m\<bar> * 0.4 + \<bar>d - l\<bar> * 0.4 + \<bar>m - l\<bar> * 0.2) / 2.0"
    "1.0 - (\<bar>d - m\<bar> * 0.4 + \<bar>d - l\<bar> * 0.4 + \<bar>m - l\<bar> * 0.2) / 2.0 \<le> 1"
    by simp_all
  from assms show "\<bar>d * 0.5 + m * 0.3 + l * 0.2\<bar> \<le> 1"
    by (simp add: abs_le_iff)
qed

lemma length_combine_timeframes [simp]:
  "length (combine_timeframes daily_df medium_df lower_df) = length lower_df"
  by (simp add: combine_timeframes_def)

lemma combine_timeframes_row:
  assumes "r \<in> set (combine_timeframes daily_df medium_df lower_df)"
  shows "\<exists>f\<in>set lower_df. row_datetime r = fr_datetime f \<and>
     (case (asof_trend daily_df (fr_datetime f), asof_trend medium_df (fr_datetime f)) of
        (Some d, Some m) \<Rightarrow>
          combined_trend r = Some (d * 0.5 + m * 0.3 + trend_strength f * 0.2) \<and>
          timeframe_alignment r =
            Some (1.0 - (\<bar>d - m\<bar> * 0.4 + \<bar>d - trend_strength f\<bar> * 0.4 +
                         \<bar>m - trend_strength f\<bar> * 0.2) / 2.0)
      | _ \<Rightarrow> combined_trend r = None \<and> timeframe_alignment r = None)"
  using assms
  by (auto simp: combine_timeframes_def Let_def split: option.splits)

lemma rolling_mean_decay: "rolling_mean 14 decay_example ! 13 = Some 1"
  by (simp add: rolling_mean_def decay_example_def)

lemma wilder_decay:
  "wilder_smooth_real decay_example 14 ! 13 = 302875106592253 / 56693912375296"
  by (simp add: wilder_smooth_real_spec wilder_spec_def decay_example_def Let_def)

lemma combine_row_bounds:
  assumes d: "\<forall>f\<in>set daily_df. \<bar>trend_strength f\<bar> \<le> 1"
    and m: "\<forall>f\<in>set medium_df. \<bar>trend_strength f\<bar> \<le> 1"
    and l: "\<forall>f\<in>set lower_df. \<bar>trend_strength f\<bar> \<le> 1"
    and r: "r \<in> set (combine_timeframes daily_df medium_df lower_df)"
  shows "(\<forall>ct. combined_trend r = Some ct \<longrightarrow> - 1 \<le> ct \<and> ct \<le> 1) \<and>
         (\<forall>a. timeframe_alignment r = Some a \<longrightarrow> 0 \<le> a \<and> a \<le> 1)"
proof -
  from combine_timeframes_row [OF r] obtain f where f: "f \<in> set lower_df"
    and cs: "(case (asof_trend daily_df (fr_datetime f), asof_trend medium_df (fr_datetime f)) of
        (Some d, Some m) \<Rightarrow>
          combined_trend r = Some (d * 0.5 + m * 0.3 + trend_strength f * 0.2) \<and>
          timeframe_alignment r =
            Some (1.0 - (\<bar>d - m\<bar> * 0.4 + \<bar>d - trend_strength f\<bar> * 0.4 +
                         \<bar>m - trend_strength f\<bar> * 0.2) / 2.0)
      | _ \<Rightarrow> combined_trend r = None \<and> timeframe_alignment r = None)"
    by blast
  from l f have lb: "\<bar>trend_strength f\<bar> \<le> 1" by blast
  show ?thesis
  proof (cases "asof_trend daily_df (fr_datetime f)")
    case None
    with cs show ?thesis by simp
  next
    case (Some x)
    note dx = this
    show ?thesis
    proof (cases "asof_trend medium_df (fr_datetime f)")
      case None
      with cs dx show ?thesis by simp
    next
      case (Some y)
      from asof_trend_in [OF dx] d have db: "\<bar>x\<bar> \<le> 1" by blast
      from asof_trend_in [OF Some] m have mb: "\<bar>y\<bar> \<le> 1" by blast
      from cs dx Some have eq: "combined_trend r = Some (x * 0.5 + y * 0.3 + trend_strength f * 0.2)"
        "timeframe_alignment r =
            Some (1.0 - (\<bar>x - y\<bar> * 0.4 + \<bar>x - trend_strength f\<bar> * 0.4 +
                         \<bar>y - trend_strength f\<bar> * 0.2) / 2.0)"
        by simp_all
      from combined_bounds [OF db mb lb] show ?thesis
        unfolding eq by (simp add: abs_le_iff)
    qed
  qed
qed

text \<open>
  C10. Every trend strength computed by the engine lies in \<open>[-1, 1]\<close>; for frames
  computed by the engine, every defined combined trend lies in \<open>[-1, 1]\<close> and every
  defined timeframe alignment in \<open>[0, 1]\<close>.
\<close>

theorem trend_values_bounded:
  "(calculate_indicators vol_col df = Inr frames \<longrightarrow>
      (\<forall>f\<in>set frames. - 1 \<le> trend_strength f \<and> trend_strength f \<le> 1)) \<and>
   (calculate_indicators v1 daily = Inr daily_df \<and>
    calculate_indicators v2 medium = Inr medium_df \<and>
    calculate_indicators v3 lower = Inr lower_df \<longrightarrow>
      (\<forall>r\<in>set (combine_timeframes daily_df medium_df lower_df).
         (\<forall>ct. combined_trend r = Some ct \<longrightarrow> - 1 \<le> ct \<and> ct \<le> 1) \<and>
         (\<forall>a. timeframe_alignment r = Some a \<longrightarrow> 0 \<le> a \<and> a \<le> 1)))"
proof (intro conjI impI)
  assume c: "calculate_indicators vol_col df = Inr frames"
  show "\<forall>f\<in>set frames. - 1 \<le> trend_strength f \<and> trend_strength f \<le> 1"
  proof
    fix f assume "f \<in> set frames"
    with c have "\<bar>trend_strength f\<bar> \<le> 1" by (rule trend_strength_bounded)
    then show "- 1 \<le> trend_strength f \<and> trend_strength f \<le> 1" by (simp add: abs_le_iff)
  qed
next
  assume c: "calculate_indicators v1 daily = Inr daily_df \<and>
    calculate_indicators v2 medium = Inr medium_df \<and>
    calculate_indicators v3 lower = Inr lower_df"
  then have b: "\<forall>f\<in>set daily_df. \<bar>trend_strength f\<bar> \<le> 1"
    "\<forall>f\<in>set medium_df. \<bar>trend_strength f\<bar> \<le> 1" "\<forall>f\<in>set lower_df. \<bar>trend_strength f\<bar> \<le> 1"
    by (blast intro: trend_strength_bounded)+
  show "\<forall>r\<in>set (combine_timeframes daily_df medium_df lower_df).
         (\<forall>ct. combined_trend r = Some ct \<longrightarrow> - 1 \<le> ct \<and> ct \<le> 1) \<and>
         (\<forall>a. timeframe_alignment r = Some a \<longrightarrow> 0 \<le> a \<and> a \<le> 1)"
  proof
    fix r assume "r \<in> set (combine_timeframes daily_df medium_df lower_df)"
    from combine_row_bounds [OF b this]
    show "(\<forall>ct. combined_trend r = Some ct \<longrightarrow> - 1 \<le> ct \<and> ct \<le> 1) \<and>
         (\<forall>a. timeframe_alignment r = Some a \<longrightarrow> 0 \<le> a \<and> a \<le> 1)" .
  qed
qed

lemma flat_flat_bars: "flat 1 (flat_bars n)"
  by (simp add: flat_def flat_bars_def)

lemma flat_bars_frames:
  assumes "0 < n"
  shows "calculate_indicators vol_col (flat_bars n) =
     Inr (map (\<lambda>i. \<lparr>fr_datetime = int i, fr_close = 1, ema200 = 1, rsi = 100,
                     adx = 0, atr14 = 0, fr_vol_percentile = vol_col i,
                     trend_strength = - 0.15\<rparr>) [0..<n])"
proof -
  from assms have ne: "flat_bars n \<noteq> []" by (simp add: flat_bars_def)
  show ?thesis
    unfolding calculate_indicators_flat [OF flat_flat_bars ne]
    by (simp add: flat_bars_def)
qed

lemma asof_trend_self:
  assumes "f \<in> set df"
  shows "asof_trend df (fr_datetime f) \<noteq> None"
  using assms by (auto simp: asof_trend_None)

lemma combine_flat_rows:
  assumes d: "\<forall>f\<in>set daily_df. trend_strength f = - 0.15"
    and m: "\<forall>f\<in>set medium_df. trend_strength f = - 0.15"
    and l: "\<forall>f\<in>set lower_df. trend_strength f = - 0.15"
    and r: "r \<in> set (combine_timeframes daily_df medium_df lower_df)"
  shows "(combined_trend r = None \<and> timeframe_alignment r = None) \<or>
         (combined_trend r = Some (- 0.15) \<and> timeframe_alignment r = Some 1)"
proof -
  from combine_timeframes_row [OF r] obtain f where f: "f \<in> set lower_df"
    and cs: "(case (asof_trend daily_df (fr_datetime f), asof_trend medium_df (fr_datetime f)) of
        (Some d, Some m) \<Rightarrow>
          combined_trend r = Some (d * 0.5 + m * 0.3 + trend_strength f * 0.2) \<and>
          timeframe_alignment r =
            Some (1.0 - (\<bar>d - m\<bar> * 0.4 + \<bar>d - trend_strength f\<bar> * 0.4 +
                         \<bar>m - trend_strength f\<bar> * 0.2) / 2.0)
      | _ \<Rightarrow> combined_trend r = None \<and> timeframe_alignment r = None)"
    by blast
  from l f have lb: "trend_strength f = - 0.15" by blast
  show ?thesis
  proof (cases "asof_trend daily_df (fr_datetime f)")
    case None
    with cs show ?thesis by simp
  next
    case (Some x)
    note dx = this
    show ?thesis
    proof (cases "asof_trend medium_df (fr_datetime f)")
      case None
      with cs dx show ?thesis by simp
    next
      case (Some y)
      from asof_trend_in [OF dx] d have "x = - 0.15" by auto
      moreover from asof_trend_in [OF Some] m have "y = - 0.15" by auto
      ultimately show ?thesis using cs dx Some lb by simp
    qed
  qed
qed

lemma combine_same_defined:
  assumes "r \<in> set (combine_timeframes df df df)"
  shows "combined_trend r \<noteq> None"
proof -
  from combine_timeframes_row [OF assms] obtain f where f: "f \<in> set df"
    and cs: "(case (asof_trend df (fr_datetime f), asof_trend df (fr_datetime f)) of
        (Some d, Some m) \<Rightarrow>
          combined_trend r = Some (d * 0.5 + m * 0.3 + trend_strength f * 0.2) \<and>
          timeframe_alignment r =
            Some (1.0 - (\<bar>d - m\<bar> * 0.4 + \<bar>d - trend_strength f\<bar> * 0.4 +
                         \<bar>m - trend_strength f\<bar> * 0.2) / 2.0)
      | _ \<Rightarrow> combined_trend r = None \<and> timeframe_alignment r = None)"
    by blast
  from asof_trend_self [OF f] cs show ?thesis by auto
qed

lemma weak_trend_neutral:
  assumes "combined_trend r = None \<or> (\<exists>ct. combined_trend r = Some ct \<and> \<bar>ct\<bar> < 0.2)"
  shows "fst (live_signal r) = NEUTRAL"
    and "generate_signal phemex_params r = Some sd \<Longrightarrow> sd_signal sd = NEUTRAL"
proof -
  have thr: "trend_strength_threshold (phemex_params md) = 0.2" for md
    by (cases md) (simp_all add: phemex_params_def)
  show "fst (live_signal r) = NEUTRAL"
    using assms
    by (auto simp: live_signal_def Let_def thr split: option.splits prod.splits)
  show "generate_signal phemex_params r = Some sd \<Longrightarrow> sd_signal sd = NEUTRAL"
    using assms
    by (auto simp: generate_signal_def Let_def thr split: option.splits)
qed

theorem trend_values_bounded_witness:
  "\<exists>frames. calculate_indicators (\<lambda>_. None) (flat_bars 3) = Inr frames \<and>
      length frames = 3 \<and>
      - 1 \<le> trend_strength (frames ! 2) \<and> trend_strength (frames ! 2) \<le> 1 \<and>
      combined_trend (combine_timeframes frames frames frames ! 2) = Some (- 0.15) \<and>
      timeframe_alignment (combine_timeframes frames frames frames ! 2) = Some 1"
proof -
  let ?frames = "map (\<lambda>i. \<lparr>fr_datetime = int i, fr_close = 1, ema200 = 1, rsi = 100,
                     adx = 0, atr14 = 0, fr_vol_percentile = None,
                     trend_strength = - 0.15\<rparr>) [0..<3]"
  have c: "calculate_indicators (\<lambda>_. None) (flat_bars 3) = Inr ?frames"
    by (rule flat_bars_frames) simp
  have ts: "\<forall>f\<in>set ?frames. trend_strength f = - 0.15" by simp
  have l: "length ?frames = 3" by simp
  have f2: "?frames ! 2 \<in> set ?frames" by (intro nth_mem) simp
  have r2: "combine_timeframes ?frames ?frames ?frames ! 2
      \<in> set (combine_timeframes ?frames ?frames ?frames)"
    by (intro nth_mem) simp
  note b = trend_values_bounded [of "\<lambda>_. None" "flat_bars 3" ?frames "\<lambda>_. None" "flat_bars 3"
      ?frames "\<lambda>_. None" "flat_bars 3" ?frames "\<lambda>_. None" "flat_bars 3" ?frames]
  from b c f2 have fb: "- 1 \<le> trend_strength (?frames ! 2) \<and> trend_strength (?frames ! 2) \<le> 1"
    by blast
  from b c r2 have rb: "(\<forall>ct. combined_trend (combine_timeframes ?frames ?frames ?frames ! 2) = Some ct
        \<longrightarrow> - 1 \<le> ct \<and> ct \<le> 1)"
    by blast
  have rows: "combined_trend (combine_timeframes ?frames ?frames ?frames ! 2) = Some (- 0.15) \<and>
      timeframe_alignment (combine_timeframes ?frames ?frames ?frames ! 2) = Some 1"
    using combine_flat_rows [OF ts ts ts r2] combine_same_defined [OF r2] by blast
  from c l fb rows show ?thesis
    by (intro exI [of _ ?frames]) blast
qed

text \<open>
  C7, as stated, fails in its first half: on a flat series the trend strength is not
  close to 0. At bar 250 of 300 identical bars it is \<open>-0.15\<close>.
\<close>

theorem flat_trend_counterexample:
  "flat 1 (flat_bars 300) \<and>
   (\<exists>frames. calculate_indicators (\<lambda>_. None) (flat_bars 300) = Inr frames \<and>
      length frames = 300 \<and> trend_strength (frames ! 250) = - 0.15)"
proof -
  have "calculate_indicators (\<lambda>_. None) (flat_bars 300) =
     Inr (map (\<lambda>i. \<lparr>fr_datetime = int i, fr_close = 1, ema200 = 1, rsi = 100,
                     adx = 0, atr14 = 0, fr_vol_percentile = None,
                     trend_strength = - 0.15\<rparr>) [0..<300])"
    by (rule flat_bars_frames) simp
  then show ?thesis by (simp add: flat_flat_bars)
qed

text \<open>
  C7, amended. On a flat series the trend strength is \<open>-0.15\<close> on every bar: the EMAs
  equal the price and the MACD its signal, so the three price and MACD sign terms are -1,
  the RSI is 100, so its sign term is +1, and the ADX is 0, which halves the sum. With
  three flat timeframes the combined trend is absent or \<open>-0.15\<close>, below the threshold
  0.2, and neither the live signal nor the backtester's signal is ever BUY or SELL.
\<close>

theorem flat_series_no_signal:
  "(flat c df \<and> calculate_indicators vol_col df = Inr frames \<longrightarrow>
      length frames = length df \<and> (\<forall>f\<in>set frames. trend_strength f = - 0.15)) \<and>
   (flat c1 daily \<and> flat c2 medium \<and> flat c3 lower \<and>
    calculate_indicators v1 daily = Inr daily_df \<and>
    calculate_indicators v2 medium = Inr medium_df \<and>
    calculate_indicators v3 lower = Inr lower_df \<longrightarrow>
      (\<forall>r\<in>set (combine_timeframes daily_df medium_df lower_df).
         (combined_trend r = None \<or> combined_trend r = Some (- 0.15)) \<and>
         fst (live_signal r) = NEUTRAL \<and>
         (\<forall>sd. generate_signal phemex_params r = Some sd \<longrightarrow> sd_signal sd = NEUTRAL)))"
proof -
  have fl: "length frames = length df \<and> (\<forall>f\<in>set frames. trend_strength f = - 0.15)"
    if "flat c df" and "calculate_indicators vol_col df = Inr frames"
    for c df vol_col frames
  proof -
    from that(2) have ne: "df \<noteq> []"
      by (auto simp: calculate_indicators_def split: if_splits)
    from calculate_indicators_flat [OF that(1) ne, of vol_col] that(2) show ?thesis by auto
  qed
  have rows: "(combined_trend r = None \<or> combined_trend r = Some (- 0.15)) \<and>
         fst (live_signal r) = NEUTRAL \<and>
         (\<forall>sd. generate_signal phemex_params r = Some sd \<longrightarrow> sd_signal sd = NEUTRAL)"
    if a: "flat c1 daily \<and> flat c2 medium \<and> flat c3 lower \<and>
      calculate_indicators v1 daily = Inr daily_df \<and>
      calculate_indicators v2 medium = Inr medium_df \<and>
      calculate_indicators v3 lower = Inr lower_df"
      and r: "r \<in> set (combine_timeframes daily_df medium_df lower_df)" for r
  proof -
    from a fl have ts: "\<forall>f\<in>set daily_df. trend_strength f = - 0.15"
      "\<forall>f\<in>set medium_df. trend_strength f = - 0.15" "\<forall>f\<in>set lower_df. trend_strength f = - 0.15"
      by blast+
    from combine_flat_rows [OF ts r]
    have c: "combined_trend r = None \<or> combined_trend r = Some (- 0.15)" by blast
    then have w: "combined_trend r = None \<or> (\<exists>ct. combined_trend r = Some ct \<and> \<bar>ct\<bar> < 0.2)"
      by auto
    from c weak_trend_neutral [OF w] show ?thesis by blast
  qed
  from fl rows show ?thesis by blast
qed

theorem flat_series_no_signal_witness:
  "\<exists>frames. calculate_indicators (\<lambda>_. Some 50) (flat_bars 3) = Inr frames \<and>
      length frames = 3 \<and> trend_strength (frames ! 2) = - 0.15 \<and>
      combined_trend (combine_timeframes frames frames frames ! 2) = Some (- 0.15) \<and>
      vol_percentile (combine_timeframes frames frames frames ! 2) = Some 50 \<and>
      fst (live_signal (combine_timeframes frames frames frames ! 2)) = NEUTRAL \<and>
      map_option sd_signal
        (generate_signal phemex_params (combine_timeframes frames frames frames ! 2))
        = Some NEUTRAL"
proof -
  let ?frames = "map (\<lambda>i. \<lparr>fr_datetime = int i, fr_close = 1, ema200 = 1, rsi = 100,
                     adx = 0, atr14 = 0, fr_vol_percentile = Some 50,
                     trend_strength = - 0.15\<rparr>) [0..<3]"
  let ?r = "combine_timeframes ?frames ?frames ?frames ! 2"
  have c: "calculate_indicators (\<lambda>_. Some 50) (flat_bars 3) = Inr ?frames"
    by (rule flat_bars_frames) simp
  note t = flat_series_no_signal [of 1 "flat_bars 3" "\<lambda>_. Some 50" ?frames
      1 "flat_bars 3" 1 "flat_bars 3" 1 "flat_bars 3" "\<lambda>_. Some 50" ?frames
      "\<lambda>_. Some 50" ?frames "\<lambda>_. Some 50" ?frames]
  have l: "length ?frames = 3" by simp
  have f2: "?frames ! 2 \<in> set ?frames" by (intro nth_mem) simp
  have r2: "?r \<in> set (combine_timeframes ?frames ?frames ?frames)"
    by (intro nth_mem) simp
  from t c flat_flat_bars [of 3] f2 have ts: "trend_strength (?frames ! 2) = - 0.15"
    by blast
  from t c flat_flat_bars [of 3] r2 have rr:
    "combined_trend ?r = None \<or> combined_trend ?r = Some (- 0.15)"
    "fst (live_signal ?r) = NEUTRAL"
    "\<forall>sd. generate_signal phemex_params ?r = Some sd \<longrightarrow> sd_signal sd = NEUTRAL"
    by blast+
  from rr(1) combine_same_defined [OF r2] have ct: "combined_trend ?r = Some (- 0.15)"
    by blast
  have v: "vol_percentile ?r = Some 50"
    by (simp add: combine_timeframes_def Let_def)
  obtain sd where sd: "generate_signal phemex_params ?r = Some sd"
    using ct by (auto simp: generate_signal_def Let_def combine_timeframes_def
        split: option.splits)
  with rr(3) have g: "map_option sd_signal (generate_signal phemex_params ?r) = Some NEUTRAL"
    by simp
  from c l ts ct v rr(2) g show ?thesis
    by (intro exI [of _ ?frames]) blast
qed

section \<open>Warm-up\<close>

lemma calculate_indicators_total:
  assumes "df \<noteq> []"
  shows "\<exists>frames. calculate_indicators vol_col df = Inr frames \<and> length frames = length df"
  using assms by (simp add: calculate_indicators_def Let_def)

lemma combine_absent_iff:
  assumes "r \<in> set (combine_timeframes daily_df medium_df lower_df)"
  shows "(combined_trend r = None \<longleftrightarrow>
           \<not> (\<exists>f\<in>set daily_df. fr_datetime f \<le> row_datetime r) \<or>
           \<not> (\<exists>f\<in>set medium_df. fr_datetime f \<le> row_datetime r)) \<and>
         (timeframe_alignment r = None \<longleftrightarrow> combined_trend r = None)"
proof -
  from combine_timeframes_row [OF assms] obtain f where f: "f \<in> set lower_df"
    and t: "row_datetime r = fr_datetime f"
    and cs: "(case (asof_trend daily_df (fr_datetime f), asof_trend medium_df (fr_datetime f)) of
        (Some d, Some m) \<Rightarrow>
          combined_trend r = Some (d * 0.5 + m * 0.3 + trend_strength f * 0.2) \<and>
          timeframe_alignment r =
            Some (1.0 - (\<bar>d - m\<bar> * 0.4 + \<bar>d - trend_strength f\<bar> * 0.4 +
                         \<bar>m - trend_strength f\<bar> * 0.2) / 2.0)
      | _ \<Rightarrow> combined_trend r = None \<and> timeframe_alignment r = None)"
    by blast
  have d: "asof_trend daily_df (fr_datetime f) = None \<longleftrightarrow>
      \<not> (\<exists>g\<in>set daily_df. fr_datetime g \<le> row_datetime r)"
    unfolding t by (rule asof_trend_None)
  have m: "asof_trend medium_df (fr_datetime f) = None \<longleftrightarrow>
      \<not> (\<exists>g\<in>set medium_df. fr_datetime g \<le> row_datetime r)"
    unfolding t by (rule asof_trend_None)
  show ?thesis
    using cs unfolding d [symmetric] m [symmetric]
    by (cases "asof_trend daily_df (fr_datetime f)"; cases "asof_trend medium_df (fr_datetime f)")
      simp_all
qed

lemma absent_no_signal:
  assumes "combined_trend r = None"
  shows "generate_signal params r = None" and "live_signal r = (NEUTRAL, 0, None)"
  using assms by (simp_all add: generate_signal_def live_signal_def)

lemma run_backtest_skips_250:
  assumes "length pre = 250" and "length pre' = 250"
  shows "run_backtest params c (pre @ rest) = run_backtest params c (pre' @ rest)"
proof (cases "rest = []")
  case True
  with assms show ?thesis by (simp add: run_backtest_def init_backtester_def)
next
  case False
  then have l: "last (pre @ rest) = last rest" "last (pre' @ rest) = last rest"
    by simp_all
  show ?thesis
    unfolding run_backtest_def l using assms by simp
qed

text \<open>
  C2, as stated, fails: the engine masks no warm-up. On a series of 100 bars, fewer than
  the 200 of the longest EMA, the trend strength of the first bar is defined (\<open>-0.15\<close>),
  and so is the combined trend of the first and of the last row.
\<close>

theorem warmup_counterexample:
  "\<exists>frames. calculate_indicators (\<lambda>_. None) (flat_bars 100) = Inr frames \<and>
      length frames = 100 \<and> trend_strength (frames ! 0) = - 0.15 \<and>
      combined_trend (combine_timeframes frames frames frames ! 0) = Some (- 0.15) \<and>
      combined_trend (combine_timeframes frames frames frames ! 99) = Some (- 0.15)"
proof -
  let ?frames = "map (\<lambda>i. \<lparr>fr_datetime = int i, fr_close = 1, ema200 = 1, rsi = 100,
                     adx = 0, atr14 = 0, fr_vol_percentile = None,
                     trend_strength = - 0.15\<rparr>) [0..<100]"
  have c: "calculate_indicators (\<lambda>_. None) (flat_bars 100) = Inr ?frames"
    by (rule flat_bars_frames) simp
  have ts: "\<forall>f\<in>set ?frames. trend_strength f = - 0.15" by simp
  have rows: "combined_trend r = Some (- 0.15)"
    if "r \<in> set (combine_timeframes ?frames ?frames ?frames)" for r
    using combine_flat_rows [OF ts ts ts that] combine_same_defined [OF that] by blast
  have n: "combine_timeframes ?frames ?frames ?frames ! i
      \<in> set (combine_timeframes ?frames ?frames ?frames)" if "i < 100" for i
    using that by (intro nth_mem) simp
  from rows [OF n [of 0]] rows [OF n [of 99]]
  have "combined_trend (combine_timeframes ?frames ?frames ?frames ! 0) = Some (- 0.15)"
    "combined_trend (combine_timeframes ?frames ?frames ?frames ! 99) = Some (- 0.15)"
    by simp_all
  with c show ?thesis
    by (intro exI [of _ ?frames]) simp
qed

text \<open>
  C2, amended. The engine computes a trend strength for every bar of a non-empty series,
  from the first bar on (the EMAs are seeded with the first close). The combined trend of
  a row is absent exactly when no daily bar or no medium bar has a datetime at or before
  the row's, and the alignment is absent exactly when the combined trend is. A row whose
  combined trend is absent gives no signal (the backtester's generator returns nothing,
  the live signal is NEUTRAL), and the backtester never reads the first 250 rows of the
  prepared frame.
\<close>

theorem warmup_as_implemented:
  "(df \<noteq> [] \<longrightarrow>
      (\<exists>frames. calculate_indicators vol_col df = Inr frames \<and> length frames = length df)) \<and>
   (\<forall>r\<in>set (combine_timeframes daily_df medium_df lower_df).
      (combined_trend r = None \<longleftrightarrow>
           \<not> (\<exists>f\<in>set daily_df. fr_datetime f \<le> row_datetime r) \<or>
           \<not> (\<exists>f\<in>set medium_df. fr_datetime f \<le> row_datetime r)) \<and>
      (timeframe_alignment r = None \<longleftrightarrow> combined_trend r = None)) \<and>
   (combined_trend r = None \<longrightarrow>
      generate_signal params r = None \<and> live_signal r = (NEUTRAL, 0, None)) \<and>
   (length pre = 250 \<and> length pre' = 250 \<longrightarrow>
      run_backtest params c (pre @ rest) = run_backtest params c (pre' @ rest))"
proof (intro conjI impI ballI)
  assume "df \<noteq> []"
  then show "\<exists>frames. calculate_indicators vol_col df = Inr frames \<and> length frames = length df"
    by (rule calculate_indicators_total)
next
  fix x assume "x \<in> set (combine_timeframes daily_df medium_df lower_df)"
  from combine_absent_iff [OF this]
  show "combined_trend x = None \<longleftrightarrow>
           \<not> (\<exists>f\<in>set daily_df. fr_datetime f \<le> row_datetime x) \<or>
           \<not> (\<exists>f\<in>set medium_df. fr_datetime f \<le> row_datetime x)"
    and "timeframe_alignment x = None \<longleftrightarrow> combined_trend x = None"
    by blast+
next
  assume a: "combined_trend r = None"
  show "generate_signal params r = None" by (rule absent_no_signal(1) [OF a])
  show "live_signal r = (NEUTRAL, 0, None)" by (rule absent_no_signal(2) [OF a])
next
  assume "length pre = 250 \<and> length pre' = 250"
  then show "run_backtest params c (pre @ rest) = run_backtest params c (pre' @ rest)"
    by (simp add: run_backtest_skips_250)
qed

theorem warmup_as_implemented_witness:
  "(\<exists>frames. calculate_indicators (\<lambda>_. None) (flat_bars 3) = Inr frames \<and> length frames = 3) \<and>
   combined_trend (combine_timeframes [] [example_frame] [example_frame] ! 0) = None \<and>
   timeframe_alignment (combine_timeframes [] [example_frame] [example_frame] ! 0) = None \<and>
   combined_trend (combine_timeframes [example_frame] [example_frame] [example_frame] ! 0) \<noteq> None \<and>
   generate_signal phemex_params final_row = None \<and>
   live_signal final_row = (NEUTRAL, 0, None) \<and>
   run_backtest phemex_params 10000 (replicate 250 final_row @ [example_row, final_row])
     = run_backtest phemex_params 10000 (replicate 250 example_row @ [example_row, final_row])"
proof -
  note w1 = warmup_as_implemented [of "flat_bars 3" "\<lambda>_. None" "[]" "[example_frame]"
      "[example_frame]" final_row phemex_params "replicate 250 final_row"
      "replicate 250 example_row" 10000 "[example_row, final_row]"]
  note w2 = warmup_as_implemented [of "flat_bars 3" "\<lambda>_. None" "[example_frame]"
      "[example_frame]" "[example_frame]" final_row phemex_params "replicate 250 final_row"
      "replicate 250 example_row" 10000 "[example_row, final_row]"]
  have ne: "flat_bars 3 \<noteq> []" by (simp add: flat_bars_def)
  have l: "length (flat_bars 3) = 3" by (simp add: flat_bars_def)
  have n: "combined_trend final_row = None" by (simp add: final_row_def)
  have m1: "combine_timeframes [] [example_frame] [example_frame] ! 0
      \<in> set (combine_timeframes [] [example_frame] [example_frame])"
    by (intro nth_mem) simp
  have m2: "combine_timeframes [example_frame] [example_frame] [example_frame] ! 0
      \<in> set (combine_timeframes [example_frame] [example_frame] [example_frame])"
    by (intro nth_mem) simp
  have t: "row_datetime (combine_timeframes [example_frame] [example_frame] [example_frame] ! 0)
      = fr_datetime example_frame"
    by (simp add: combine_timeframes_def Let_def)
  from w1 ne l n have a: "\<exists>frames. calculate_indicators (\<lambda>_. None) (flat_bars 3) = Inr frames \<and>
      length frames = 3"
    "generate_signal phemex_params final_row = None"
    "live_signal final_row = (NEUTRAL, 0, None)"
    "run_backtest phemex_params 10000 (replicate 250 final_row @ [example_row, final_row])
     = run_backtest phemex_params 10000 (replicate 250 example_row @ [example_row, final_row])"
    by simp_all
  from w1 m1 have b: "combined_trend (combine_timeframes [] [example_frame] [example_frame] ! 0) = None"
    "timeframe_alignment (combine_timeframes [] [example_frame] [example_frame] ! 0) = None"
    by simp_all
  from w2 m2 t have c: "combined_trend
      (combine_timeframes [example_frame] [example_frame] [example_frame] ! 0) \<noteq> None"
    by simp
  from a b c show ?thesis by blast
qed

section \<open>The smoothing inside the engine\<close>

lemma diff_deltas:
  "diff (x # xs) = None # map Some (deltas (x # xs))"
  by (simp add: diff_def deltas_def map_zip_map2 split_def comp_def)

lemma length_deltas [simp]: "length (deltas col) = length col - 1"
  by (simp add: deltas_def)

lemma map2_dm_of_Some:
  "length us = length ds \<Longrightarrow>
   map2 dm_of (map Some us) (map Some ds) = map Some (map2 dm_real us ds)"
  by (induction us ds rule: list_induct2) (simp_all add: dm_of_def dm_real_def gt_def)

lemma dm_columns:
  assumes "length highs = length lows" and "highs \<noteq> []"
  shows "map2 dm_of (diff highs) (map (map_option uminus) (diff lows))
           = None # map Some (plus_dm highs lows)"
    and "map2 dm_of (map (map_option uminus) (diff lows)) (diff highs)
           = None # map Some (minus_dm highs lows)"
proof -
  from assms obtain h hs l ls where hl: "highs = h # hs" "lows = l # ls" "length hs = length ls"
    by (cases highs; cases lows) auto
  have d: "map (map_option uminus) (map Some (deltas (l # ls))) = map Some (map uminus (deltas (l # ls)))"
    by simp
  have len: "length (deltas (h # hs)) = length (map uminus (deltas (l # ls)))"
    using hl(3) by simp
  show "map2 dm_of (diff highs) (map (map_option uminus) (diff lows))
           = None # map Some (plus_dm highs lows)"
    unfolding hl diff_deltas list.map d
    using map2_dm_of_Some [OF len]
    by (simp add: plus_dm_def dm_of_def)
  show "map2 dm_of (map (map_option uminus) (diff lows)) (diff highs)
           = None # map Some (minus_dm highs lows)"
    unfolding hl diff_deltas list.map d
    using map2_dm_of_Some [OF len [symmetric]]
    by (simp add: minus_dm_def dm_of_def)
qed

lemma wilder_smooth_leading_one:
  "wilder_smooth (None # map Some xs) 14 = None # map Some (wilder_spec 14 xs)"
  using ewm_mean_leading [of "1 / real 14" 1 xs] wilder_smooth_real_spec [of xs 14]
  by (simp add: wilder_smooth_def wilder_smooth_real_def)

lemma wilder_smooth_all_Some:
  "wilder_smooth (map Some xs) 14 = map Some (wilder_spec 14 xs)"
  using ewm_mean_Some [of "1 / real 14" xs] wilder_smooth_real_spec [of xs 14]
  by (simp add: wilder_smooth_def wilder_smooth_real_def)

lemma adx_by_recurrence:
  assumes "length highs = length lows" and "highs \<noteq> []"
  shows "calculate_tradingview_adx highs lows closes
     = map (fillna 0) (wilder_smooth (dx_by_recurrence highs lows closes) 14)"
  unfolding calculate_tradingview_adx_def Let_def dm_columns [OF assms]
    wilder_smooth_leading_one dx_by_recurrence_def
  using wilder_smooth_real_spec [of "true_range_col highs lows closes" 14]
  by simp

lemma adx_by_recurrence_defined:
  assumes "length highs = length lows" and "highs \<noteq> []"
    and "dx_by_recurrence highs lows closes = map Some dxs"
  shows "calculate_tradingview_adx highs lows closes = wilder_spec 14 dxs"
  unfolding adx_by_recurrence [OF assms(1,2)] assms(3) wilder_smooth_all_Some
  by (simp add: comp_def fillna_def)

lemma length_ewm_run_real [simp]: "length (ewm_run_real alpha w xs) = length xs"
  by (induction xs arbitrary: w) (simp_all add: Let_def)

lemma length_ewm_mean_real [simp]: "length (ewm_mean_real alpha xs) = length xs"
  by (cases xs) (simp_all add: ewm_mean_real_def)

lemma length_ewm_run [simp]: "length (ewm_run alpha w ow xs) = length xs"
  by (induction xs arbitrary: w ow) (simp_all add: Let_def split: option.splits)

lemma length_ewm_mean [simp]: "length (ewm_mean alpha xs) = length xs"
  by (cases xs) (simp_all add: ewm_mean_def)

lemma length_wilder_smooth_real [simp]: "length (wilder_smooth_real xs p) = length xs"
  by (simp add: wilder_smooth_real_def)

lemma length_wilder_smooth [simp]: "length (wilder_smooth xs p) = length xs"
  by (simp add: wilder_smooth_def)

lemma length_diff [simp]: "length (diff col) = length col"
  by (cases col) (simp_all add: diff_def)

lemma length_true_range_col [simp]: "length (true_range_col highs lows closes) = length closes"
  by (simp add: true_range_col_def)

lemma length_adx [simp]:
  "length highs = length closes \<Longrightarrow> length lows = length closes \<Longrightarrow>
   length (calculate_tradingview_adx highs lows closes) = length closes"
  by (simp add: calculate_tradingview_adx_def Let_def)

lemma map_upt_nth: "length xs = n \<Longrightarrow> map (\<lambda>i. xs ! i) [0..<n] = xs"
  by (auto simp: list_eq_iff_nth_eq)

lemma calculate_indicators_columns:
  assumes "calculate_indicators vol_col df = Inr frames"
  shows "map atr14 frames
           = wilder_smooth_real (true_range_col (map high df) (map low df) (map close df)) 14"
    and "map rsi frames
           = map2 rsi_of (wilder_smooth_real (map gain_of (diff (map close df))) 14)
                         (wilder_smooth_real (map loss_of (diff (map close df))) 14)"
    and "map adx frames = calculate_tradingview_adx (map high df) (map low df) (map close df)"
proof -
  from assms have ne: "df \<noteq> []"
    by (auto simp: calculate_indicators_def split: if_splits)
  with assms show "map atr14 frames
           = wilder_smooth_real (true_range_col (map high df) (map low df) (map close df)) 14"
    by (auto simp: calculate_indicators_def Let_def comp_def map_upt_nth)
  from assms ne show "map rsi frames
           = map2 rsi_of (wilder_smooth_real (map gain_of (diff (map close df))) 14)
                         (wilder_smooth_real (map loss_of (diff (map close df))) 14)"
    by (auto simp: calculate_indicators_def Let_def comp_def map_upt_nth)
  from assms ne show "map adx frames
      = calculate_tradingview_adx (map high df) (map low df) (map close df)"
    by (auto simp: calculate_indicators_def Let_def comp_def map_upt_nth)
qed


lemma trend_bars_columns:
  "map high trend_bars = [2, 3, 4]" "map low trend_bars = [1, 1.5, 2]"
  "map close trend_bars = [1.5, 2.5, 3.5]"
  by (simp_all add: trend_bars_def)

lemma upt_3: "[0..<3] = [0, 1, 2]"
  by (simp add: numeral_3_eq_3 upt_rec)

lemma trend_true_range: "true_range_col [2, 3, 4] [1, 1.5, 2] [1.5, 2.5, 3.5] = [1, 1.5, 2]"
  by (simp add: true_range_col_def upt_3)

lemma trend_atr: "atr_by_recurrence [2, 3, 4] [1, 1.5, 2] [1.5, 2.5, 3.5] = [1, 29 / 28, 433 / 392]"
  unfolding atr_by_recurrence_def trend_true_range
  by (simp add: wilder_spec_def Let_def)

lemma trend_rsi: "rsi_by_recurrence [1.5, 2.5, 3.5] = [100, 100, 100]"
  by (simp add: rsi_by_recurrence_def diff_def gain_of_def loss_of_def wilder_spec_def Let_def
      rsi_of_def)

lemma trend_dx:
  "dx_by_recurrence [2, 3, 4] [1, 1.5, 2] [1.5, 2.5, 3.5] = map Some [0, 100, 100]"
  unfolding dx_by_recurrence_def trend_true_range
  by (simp add: plus_dm_def minus_dm_def deltas_def dm_real_def wilder_spec_def Let_def
      di_of_def dx_of_def)

lemma trend_adx: "wilder_spec 14 [0, 100, 100] = [0, 50 / 7, 675 / 49]"
  by (simp add: wilder_spec_def Let_def)

text \<open>
  C5. The smoothing of the engine is the Wilder recurrence seeded by the first
  observation. For a positive period, \<open>wilder_smooth\<close> on a column without NaN equals
  \<open>wilder_spec\<close>, pointwise \<open>avg[i] = avg[i-1] + (1/period) * (x[i] - avg[i-1])\<close> with
  \<open>avg[0] = x[0]\<close>; on a column with leading NaN cells it is NaN on those cells and the
  recurrence seeded by the first observation after them; and it is not the rolling mean of
  the other strategy file, from which it differs on \<open>decay_example\<close> in a cell where
  both are defined. In every frame that \<open>calculate_indicators\<close> returns, the ATR column
  is the recurrence over the true range, the RSI column is built from the recurrences
  over the gains and the losses, and the ADX column is the smoothing of the DX column
  built from the recurrences over the true range and the two directional movements: the
  recurrence over DX itself whenever no DX cell is NaN.
\<close>

theorem wilder_smooth_is_recurrence:
  assumes "0 < period"
  shows "wilder_smooth_real xs period = wilder_spec (real period) xs \<and>
     wilder_smooth (replicate k None @ map Some xs) period
       = replicate k None @ map Some (wilder_spec (real period) xs) \<and>
     (\<forall>i<length xs. wilder_smooth_real xs period ! i =
        (if i = 0 then xs ! 0
         else wilder_smooth_real xs period ! (i - 1)
              + (1 / real period) * (xs ! i - wilder_smooth_real xs period ! (i - 1)))) \<and>
     rolling_mean 14 decay_example ! 13 \<noteq> Some (wilder_smooth_real decay_example 14 ! 13) \<and>
     (calculate_indicators vol_col df = Inr frames \<longrightarrow>
        map atr14 frames = atr_by_recurrence (map high df) (map low df) (map close df) \<and>
        map rsi frames = rsi_by_recurrence (map close df) \<and>
        map adx frames =
          map (fillna 0)
            (wilder_smooth (dx_by_recurrence (map high df) (map low df) (map close df)) 14) \<and>
        (\<forall>dxs. dx_by_recurrence (map high df) (map low df) (map close df) = map Some dxs
           \<longrightarrow> map adx frames = wilder_spec 14 dxs))"
proof (intro conjI allI impI)
  show "wilder_smooth_real xs period = wilder_spec (real period) xs"
    by (rule wilder_smooth_real_spec)
  show "wilder_smooth (replicate k None @ map Some xs) period
       = replicate k None @ map Some (wilder_spec (real period) xs)"
    using ewm_mean_leading [of "1 / real period" k xs] wilder_smooth_real_spec [of xs period]
    by (simp add: wilder_smooth_def wilder_smooth_real_def)
  show "rolling_mean 14 decay_example ! 13 \<noteq> Some (wilder_smooth_real decay_example 14 ! 13)"
    by (simp add: rolling_mean_decay wilder_decay)
next
  fix i assume "i < length xs"
  then show "wilder_smooth_real xs period ! i =
        (if i = 0 then xs ! 0
         else wilder_smooth_real xs period ! (i - 1)
              + (1 / real period) * (xs ! i - wilder_smooth_real xs period ! (i - 1)))"
    unfolding wilder_smooth_real_spec by (rule wilder_spec_nth)
next
  assume c: "calculate_indicators vol_col df = Inr frames"
  then have ne: "map high df \<noteq> []" and len: "length (map high df) = length (map low df)"
    by (auto simp: calculate_indicators_def split: if_splits)
  note cols = calculate_indicators_columns [OF c]
  show "map atr14 frames = atr_by_recurrence (map high df) (map low df) (map close df)"
    using cols(1) wilder_smooth_real_spec [of _ 14] by (simp add: atr_by_recurrence_def)
  show "map rsi frames = rsi_by_recurrence (map close df)"
    using cols(2) wilder_smooth_real_spec [of _ 14] by (simp add: rsi_by_recurrence_def)
  show "map adx frames =
          map (fillna 0)
            (wilder_smooth (dx_by_recurrence (map high df) (map low df) (map close df)) 14)"
    unfolding cols(3) by (rule adx_by_recurrence [OF len ne])
  fix dxs
  assume "dx_by_recurrence (map high df) (map low df) (map close df) = map Some dxs"
  then show "map adx frames = wilder_spec 14 dxs"
    unfolding cols(3) by (rule adx_by_recurrence_defined [OF len ne])
qed

theorem wilder_smooth_is_recurrence_witness:
  "wilder_smooth_real [1, 2, 4] 2 = [1, 3 / 2, 11 / 4] \<and>
   wilder_smooth [None, Some 1, Some 2, Some 4] 2 = [None, Some 1, Some (3 / 2), Some (11 / 4)] \<and>
   wilder_smooth_real [1, 2, 4] 2 ! 2
     = wilder_smooth_real [1, 2, 4] 2 ! 1 + (1 / 2) * (4 - wilder_smooth_real [1, 2, 4] 2 ! 1) \<and>
   (\<exists>frames. calculate_indicators (\<lambda>_. None) trend_bars = Inr frames \<and>
      map atr14 frames = [1, 29 / 28, 433 / 392] \<and>
      map rsi frames = [100, 100, 100] \<and>
      map adx frames = [0, 50 / 7, 675 / 49])"
proof -
  have p: "0 < (2::nat)" by simp
  obtain frames where c: "calculate_indicators (\<lambda>_. None) trend_bars = Inr frames"
    using calculate_indicators_total [of trend_bars "\<lambda>_. None"] by (auto simp: trend_bars_def)
  note w = wilder_smooth_is_recurrence [OF p, of "[1, 2, 4]" 1 "\<lambda>_. None" trend_bars frames]
  have s: "wilder_spec 2 [1, 2, 4] = [1, 3 / 2, 11 / 4]"
    by (simp add: wilder_spec_def Let_def)
  from w have a: "wilder_smooth_real [1, 2, 4] 2 = [1, 3 / 2, 11 / 4]"
    by (simp add: s)
  from w have b: "wilder_smooth [None, Some 1, Some 2, Some 4] 2
      = [None, Some 1, Some (3 / 2), Some (11 / 4)]"
    by (simp add: s)
  from w c have e: "map atr14 frames = atr_by_recurrence (map high trend_bars)
        (map low trend_bars) (map close trend_bars)"
    "map rsi frames = rsi_by_recurrence (map close trend_bars)"
    "\<forall>dxs. dx_by_recurrence (map high trend_bars) (map low trend_bars) (map close trend_bars)
        = map Some dxs \<longrightarrow> map adx frames = wilder_spec 14 dxs"
    by blast+
  from e(3) trend_dx have "map adx frames = wilder_spec 14 [0, 100, 100]"
    unfolding trend_bars_columns by blast
  with e(1,2) have f: "map atr14 frames = [1, 29 / 28, 433 / 392]"
    "map rsi frames = [100, 100, 100]" "map adx frames = [0, 50 / 7, 675 / 49]"
    unfolding trend_bars_columns trend_atr trend_rsi trend_adx by simp_all
  from a b c f show ?thesis by simp
qed

end
